theory Spec2Isabelle
  imports Main "HOL-Library.Multiset" "HOL-Library.Sublist"
begin

section \<open>Exceptions\<close>

text \<open>
  The Python exceptions that the modelled functions can raise. A function that can
  raise returns \<open>error + 'a\<close>, with \<open>Inl\<close> for the exception.
\<close>

datatype error = AttributeError | ValueError | KeyError | EmptyDataError

section \<open>Parsed documents\<close>

text \<open>
  A parsed HTML document as BeautifulSoup presents it: a tree of tags (name, attributes,
  children) and strings. The \<open>BeautifulSoup\<close> object itself is the root tag. Every
  string of the tree has a class, and \<open>.text\<close> of a tag goes by it:
  \<^item> \<open>Text\<close> is a string of the class \<open>NavigableString\<close> or \<open>CData\<close>, the strings that
    \<open>.text\<close> collects;
  \<^item> \<open>Special\<close> is a string of any other class, which \<open>.text\<close> of \<open>h2\<close>, \<open>time\<close> and
    \<open>p\<close> leaves out: a comment, a declaration, a doctype, a processing instruction, and
    the strings to which the tree builder gives a class of their own because of the
    element that holds them (\<open>Script\<close>, \<open>Stylesheet\<close> and \<open>TemplateString\<close> for what is
    inside \<open>script\<close>, \<open>style\<close> and \<open>template\<close>, and the strings of \<open>rt\<close> and \<open>rp\<close>). So
    \<open><p>a<script>x</script></p>\<close> is \<open>Tag ''p'' [] [Text ''a'', Tag ''script'' [] [Special ''x'']]\<close>.
  Strings are lists of \<open>char\<close>, each \<open>char\<close> one code point below 256.
\<close>

datatype node =
    Text string
  | Special string
  | Tag string "(string \<times> string) list" "node list"

text \<open>\<open>tag.descendants\<close>: every node below the tag, in document order.\<close>

fun descendants :: "node \<Rightarrow> node list"
  and descendants_list :: "node list \<Rightarrow> node list" where
  "descendants (Tag n a cs) = descendants_list cs"
| "descendants (Text s) = []"
| "descendants (Special s) = []"
| "descendants_list [] = []"
| "descendants_list (c # cs) = c # descendants c @ descendants_list cs"

fun is_tag :: "string \<Rightarrow> node \<Rightarrow> bool" where
  "is_tag name (Tag n a cs) = (n = name)"
| "is_tag name (Text s) = False"
| "is_tag name (Special s) = False"

text \<open>
  \<open>tag.find_all(name)\<close> walks the tree below the tag depth first and collects the tags
  of that name; \<open>tag.find(name)\<close> stops at the first one (\<open>None\<close> when there is none).
\<close>

fun find_all :: "string \<Rightarrow> node \<Rightarrow> node list"
  and find_all_list :: "string \<Rightarrow> node list \<Rightarrow> node list" where
  "find_all name (Tag n a cs) = find_all_list name cs"
| "find_all name (Text s) = []"
| "find_all name (Special s) = []"
| "find_all_list name [] = []"
| "find_all_list name (c # cs) =
     (if is_tag name c then [c] else []) @ find_all name c @ find_all_list name cs"

fun find_tag :: "string \<Rightarrow> node \<Rightarrow> node option"
  and find_tag_list :: "string \<Rightarrow> node list \<Rightarrow> node option" where
  "find_tag name (Tag n a cs) = find_tag_list name cs"
| "find_tag name (Text s) = None"
| "find_tag name (Special s) = None"
| "find_tag_list name [] = None"
| "find_tag_list name (c # cs) =
     (if is_tag name c then Some c
      else (case find_tag name c of
              Some t \<Rightarrow> Some t
            | None \<Rightarrow> find_tag_list name cs))"

text \<open>
  \<open>tag.text\<close> for a tag that is not itself \<open>script\<close>, \<open>style\<close>, \<open>template\<close>, \<open>rt\<close> or
  \<open>rp\<close> (the scripts read it from \<open>h2\<close>, \<open>time\<close> and \<open>p\<close>): the \<open>Text\<close> strings below
  the tag, concatenated in document order.
\<close>

fun text_of :: "node \<Rightarrow> string"
  and text_of_list :: "node list \<Rightarrow> string" where
  "text_of (Text s) = s"
| "text_of (Special s) = []"
| "text_of (Tag n a cs) = text_of_list cs"
| "text_of_list [] = []"
| "text_of_list (c # cs) = text_of c @ text_of_list cs"

text \<open>\<open>tag.get(key)\<close>: the value of the attribute, \<open>None\<close> when the tag has none.\<close>

fun get_attr :: "string \<Rightarrow> node \<Rightarrow> string option" where
  "get_attr key (Tag n a cs) = map_of a key"
| "get_attr key (Text s) = None"
| "get_attr key (Special s) = None"

section \<open>Article extraction\<close>

text \<open>
  \<open>get_title\<close> and \<open>get_article_content\<close> are the same in both scripts, up to the
  absent value (\<open>np.nan\<close> in \<open>collect_and_update_data.py\<close>, \<open>None\<close> in
  \<open>monitor_website.py\<close>); both are \<open>None\<close> here. A tag is always true in a condition.
\<close>

definition get_title :: "node \<Rightarrow> string option" where
  "get_title soup =
     (case find_tag ''h2'' soup of
        Some h2_tag \<Rightarrow> Some (text_of h2_tag)
      | None \<Rightarrow> None)"

definition get_article_content :: "node \<Rightarrow> string option" where
  "get_article_content soup =
     (case find_tag ''article'' soup of
        Some article \<Rightarrow>
          Some (concat (map text_of
            (filter (\<lambda>p. find_tag ''strong'' p = None) (find_all ''p'' article))))
      | None \<Rightarrow> None)"

text \<open>
  The document of the test \<open>test_get_article_content\<close>:
  \<open><html><article><p>Content</p><p><strong>Not this</strong></p></article></html>\<close>.
\<close>

definition test_article_doc :: node where
  "test_article_doc =
     Tag ''[document]'' []
       [Tag ''html'' []
         [Tag ''article'' []
           [Tag ''p'' [] [Text ''Content''],
            Tag ''p'' [] [Tag ''strong'' [] [Text ''Not this'']]]]]"

section \<open>Python strings\<close>

text \<open>
  \<open>str.isspace\<close> on one code point below 256: the characters that \<open>str.split()\<close> splits
  on and that \<open>\s\<close> matches in a regular expression on \<open>str\<close>.
\<close>

definition is_space :: "char \<Rightarrow> bool" where
  "is_space c = (of_char c \<in> set [9, 10, 11, 12, 13, 28, 29, 30, 31, 32, 133, 160 :: nat])"

text \<open>
  \<open>s.split()\<close>: the maximal runs of characters that are not white space. \<open>cur\<close> is the
  token read so far.
\<close>

fun split_from :: "string \<Rightarrow> string \<Rightarrow> string list" where
  "split_from cur [] = (if cur = [] then [] else [cur])"
| "split_from cur (c # cs) =
     (if is_space c then (if cur = [] then split_from [] cs else cur # split_from [] cs)
      else split_from (cur @ [c]) cs)"

definition split :: "string \<Rightarrow> string list" where
  "split s = split_from [] s"

text \<open>\<open>sep.join(xs)\<close>.\<close>

fun join :: "string \<Rightarrow> string list \<Rightarrow> string" where
  "join sep [] = []"
| "join sep [x] = x"
| "join sep (x # y # ys) = x @ sep @ join sep (y # ys)"

text \<open>
  \<open>s.replace(old, new)\<close>: every occurrence of \<open>old\<close>, found from left to right without
  overlap, becomes \<open>new\<close>. With an empty \<open>old\<close>, \<open>new\<close> is put before every character
  and at the end.
\<close>

fun replace_from :: "nat \<Rightarrow> string \<Rightarrow> string \<Rightarrow> string \<Rightarrow> string" where
  "replace_from skip [] old new = []"
| "replace_from skip (c # cs) old new =
     (case skip of
        Suc k \<Rightarrow> replace_from k cs old new
      | 0 \<Rightarrow>
          if prefix old (c # cs) then new @ replace_from (length old - 1) cs old new
          else c # replace_from 0 cs old new)"

definition replace :: "string \<Rightarrow> string \<Rightarrow> string \<Rightarrow> string" where
  "replace s old new =
     (if old = [] then new @ concat (map (\<lambda>c. c # new) s)
      else replace_from 0 s old new)"

text \<open>\<open>s.lower()\<close> on code points below 256.\<close>

definition lower_char :: "char \<Rightarrow> char" where
  "lower_char c =
     (let n = (of_char c :: nat)
      in if (65 \<le> n \<and> n \<le> 90) \<or> (192 \<le> n \<and> n \<le> 222 \<and> n \<noteq> 215)
         then char_of (n + 32) else c)"

definition lower :: "string \<Rightarrow> string" where
  "lower s = map lower_char s"

text \<open>\<open>k in s\<close> on strings: \<open>k\<close> occurs in \<open>s\<close>.\<close>

fun contains :: "string \<Rightarrow> string \<Rightarrow> bool" where
  "contains [] k = (k = [])"
| "contains (c # cs) k = (prefix k (c # cs) \<or> contains cs k)"

section \<open>Parsing and formatting dates\<close>

definition is_digit :: "char \<Rightarrow> bool" where
  "is_digit c = (c \<in> set ''0123456789'')"

definition digit_val :: "char \<Rightarrow> nat" where
  "digit_val c = of_char c - 48"

definition digit_char :: "nat \<Rightarrow> char" where
  "digit_char n = ''0123456789'' ! (n mod 10)"

text \<open>\<open>int(s)\<close> on a string the pattern has matched: white space, then digits.\<close>

definition py_int :: "string \<Rightarrow> nat" where
  "py_int s = foldl (\<lambda>a c. 10 * a + digit_val c) 0 (dropWhile is_space s)"

text \<open>
  \<open>datetime.strptime(s, "%d de %m de %Y")\<close> compiles the format to the regular expression
  \<open>(?P<d>3[0-1]|[1-2]\d|0[1-9]|[1-9]| [1-9])\s+de\s+(?P<m>1[0-2]|0[1-9]|[1-9])\s+de\s+(?P<Y>\d\d\d\d)\<close>,
  matched ignoring case at the start of the string. A matcher returns the ways it can
  match a prefix of its input, as pairs of the text matched and the rest, in the order
  in which a backtracking matcher tries them; the match is the first way of the whole
  expression.
\<close>

type_synonym matcher = "string \<Rightarrow> (string \<times> string) list"

definition re_char :: "(char \<Rightarrow> bool) \<Rightarrow> matcher" where
  "re_char P s = (case s of c # r \<Rightarrow> (if P c then [([c], r)] else []) | [] \<Rightarrow> [])"

definition re_seq :: "matcher \<Rightarrow> matcher \<Rightarrow> matcher" where
  "re_seq m1 m2 s = concat (map (\<lambda>(a, r). map (\<lambda>(b, r'). (a @ b, r')) (m2 r)) (m1 s))"

definition re_alt :: "matcher \<Rightarrow> matcher \<Rightarrow> matcher" where
  "re_alt m1 m2 s = m1 s @ m2 s"

text \<open>\<open>\s+\<close>: greedy, the longest run first.\<close>

definition re_spaces :: matcher where
  "re_spaces s =
     map (\<lambda>k. (take k s, drop k s)) (rev [1 ..< Suc (length (takeWhile is_space s))])"

definition in_range :: "char \<Rightarrow> char \<Rightarrow> char \<Rightarrow> bool" where
  "in_range lo hi c = ((of_char lo :: nat) \<le> of_char c \<and> (of_char c :: nat) \<le> of_char hi)"

definition re_d :: matcher where
  "re_d =
     re_alt (re_seq (re_char (\<lambda>c. c = CHR ''3'')) (re_char (in_range CHR ''0'' CHR ''1'')))
    (re_alt (re_seq (re_char (in_range CHR ''1'' CHR ''2'')) (re_char is_digit))
    (re_alt (re_seq (re_char (\<lambda>c. c = CHR ''0'')) (re_char (in_range CHR ''1'' CHR ''9'')))
    (re_alt (re_char (in_range CHR ''1'' CHR ''9''))
            (re_seq (re_char (\<lambda>c. c = CHR '' '')) (re_char (in_range CHR ''1'' CHR ''9''))))))"

definition re_m :: matcher where
  "re_m =
     re_alt (re_seq (re_char (\<lambda>c. c = CHR ''1'')) (re_char (in_range CHR ''0'' CHR ''2'')))
    (re_alt (re_seq (re_char (\<lambda>c. c = CHR ''0'')) (re_char (in_range CHR ''1'' CHR ''9'')))
            (re_char (in_range CHR ''1'' CHR ''9'')))"

definition re_Y :: matcher where
  "re_Y = re_seq (re_char is_digit) (re_seq (re_char is_digit)
            (re_seq (re_char is_digit) (re_char is_digit)))"

text \<open>\<open>\s+de\s+\<close>, ignoring case.\<close>

definition re_de :: matcher where
  "re_de =
     re_seq re_spaces
    (re_seq (re_char (\<lambda>c. c = CHR ''d'' \<or> c = CHR ''D''))
    (re_seq (re_char (\<lambda>c. c = CHR ''e'' \<or> c = CHR ''E'')) re_spaces))"

text \<open>The groups \<open>d\<close>, \<open>m\<close>, \<open>Y\<close> and the unmatched rest of every way to match.\<close>

definition date_matches :: "string \<Rightarrow> (string \<times> string \<times> string \<times> string) list" where
  "date_matches s =
     concat (map (\<lambda>(d, r1).
       concat (map (\<lambda>(x1, r2).
         concat (map (\<lambda>(m, r3).
           concat (map (\<lambda>(x2, r4).
             map (\<lambda>(y, r5). (d, m, y, r5)) (re_Y r4))
           (re_de r3)))
         (re_m r2)))
       (re_de r1)))
     (re_d s))"

definition is_leap :: "nat \<Rightarrow> bool" where
  "is_leap y = (y mod 4 = 0 \<and> (y mod 100 \<noteq> 0 \<or> y mod 400 = 0))"

definition days_in_month :: "nat \<Rightarrow> nat \<Rightarrow> nat" where
  "days_in_month y m =
     (if m = 2 then (if is_leap y then 29 else 28)
      else if m \<in> set [4, 6, 9, 11] then 30 else 31)"

text \<open>
  A date as \<open>(year, month, day)\<close>. \<open>strptime\<close> raises \<open>ValueError\<close> when the expression
  does not match, when text remains after the match, and when \<open>datetime\<close> refuses the
  values (year 0, a day the month does not have).
\<close>

definition strptime :: "string \<Rightarrow> error + (nat \<times> nat \<times> nat)" where
  "strptime s =
     (case date_matches s of
        [] \<Rightarrow> Inl ValueError
      | (d, m, y, rest) # others \<Rightarrow>
          if rest \<noteq> [] then Inl ValueError
          else
            let year = py_int y; month = py_int m; day = py_int d
            in if 1 \<le> year \<and> year \<le> 9999 \<and> 1 \<le> month \<and> month \<le> 12
                  \<and> 1 \<le> day \<and> day \<le> days_in_month year month
               then Inr (year, month, day)
               else Inl ValueError)"

text \<open>A number below 100 in two digits and a number below 10000 in four.\<close>

definition pad2 :: "nat \<Rightarrow> string" where
  "pad2 n = [digit_char (n div 10), digit_char n]"

definition pad4 :: "nat \<Rightarrow> string" where
  "pad4 n = [digit_char (n div 1000), digit_char (n div 100), digit_char (n div 10), digit_char n]"

text \<open>\<open>str(n)\<close>: a number in decimal, without padding.\<close>

fun decimal :: "nat \<Rightarrow> string" where
  "decimal n = (if n < 10 then [digit_char n] else decimal (n div 10) @ [digit_char n])"

declare decimal.simps [simp del]

text \<open>
  \<open>strftime("%Y-%m-%d")\<close> of a \<open>datetime\<close>, which CPython 3.11 hands to \<open>strftime\<close> of
  the C library. Month and day are padded to two digits. The year is written as the C
  library of Linux (glibc) writes \<open>%Y\<close>: without padding, so that the year 999 is
  \<open>999\<close> and not \<open>0999\<close>.
\<close>

definition strftime :: "nat \<times> nat \<times> nat \<Rightarrow> string" where
  "strftime dt = (case dt of (year, month, day) \<Rightarrow> decimal year @ ''-'' @ pad2 month @ ''-'' @ pad2 day)"

section \<open>Date normalisation\<close>

text \<open>\<open>month_map\<close>, in the order in which the dictionary is written and iterated.\<close>

definition month_map :: "(string \<times> string) list" where
  "month_map =
     [(''enero'', ''01''), (''febrero'', ''02''), (''marzo'', ''03''), (''abril'', ''04''),
      (''mayo'', ''05''), (''junio'', ''06''), (''julio'', ''07''), (''agosto'', ''08''),
      (''septiembre'', ''09''), (''octubre'', ''10''), (''noviembre'', ''11''),
      (''diciembre'', ''12'')]"

definition replace_months :: "string \<Rightarrow> string" where
  "replace_months date = foldl (\<lambda>date (month_name, month_number).
      replace date month_name month_number) date month_map"

text \<open>The text of the \<open>time\<close> tag without carriage returns and line feeds.\<close>

definition strip_newlines :: "string \<Rightarrow> string" where
  "strip_newlines s = replace (replace s [CHR 0x0D] []) [CHR 0x0A] []"

text \<open>
  \<open>get_date\<close> of \<open>collect_and_update_data.py\<close>. Without a \<open>time\<close> tag, \<open>date\<close> is
  \<open>np.nan\<close>, a float, and \<open>date.split()\<close> raises \<open>AttributeError\<close>, outside the \<open>try\<close>.
  A \<open>ValueError\<close> of \<open>strptime\<close> is caught and gives \<open>np.nan\<close>.
\<close>

definition collect_get_date :: "node \<Rightarrow> error + string option" where
  "collect_get_date soup =
     (case find_tag ''time'' soup of
        None \<Rightarrow> Inl AttributeError
      | Some time_tag \<Rightarrow>
          let date = strip_newlines (text_of time_tag);
              date = join '' '' (drop 1 (split date));
              date = replace_months date
          in (case strptime date of
                Inr dt \<Rightarrow> Inr (Some (strftime dt))
              | Inl ValueError \<Rightarrow> Inr None
              | Inl e \<Rightarrow> Inl e))"

text \<open>
  \<open>get_date\<close> of \<open>monitor_website.py\<close>. Without a \<open>time\<close> tag it returns \<open>None\<close>;
  there is no \<open>try\<close> around \<open>strptime\<close>, so its \<open>ValueError\<close> is raised.
\<close>

definition monitor_get_date :: "node \<Rightarrow> error + string option" where
  "monitor_get_date soup =
     (case find_tag ''time'' soup of
        Some time_tag \<Rightarrow>
          let date = strip_newlines (text_of time_tag);
              date = join '' '' (drop 1 (split date));
              date = replace_months date
          in (case strptime date of
                Inr dt \<Rightarrow> Inr (Some (strftime dt))
              | Inl e \<Rightarrow> Inl e)
      | None \<Rightarrow> Inr None)"

text \<open>A document whose only content is a \<open>time\<close> tag with the given text.\<close>

definition time_doc :: "string \<Rightarrow> node" where
  "time_doc s = Tag ''[document]'' [] [Tag ''html'' [] [Tag ''time'' [] [Text s]]]"

section \<open>The environment of a run\<close>

text \<open>
  What a run takes from outside the two scripts:
  \<^item> \<open>http_get\<close>: an HTTP GET of a URL followed by \<open>BeautifulSoup(text, "html.parser")\<close>;
    \<open>None\<close> when the request fails (a \<open>RequestException\<close> of \<open>requests\<close>, a
    \<open>ClientError\<close> of \<open>aiohttp\<close>, a status that \<open>raise_for_status\<close> refuses). The web
    does not change during a run.
  \<^item> \<open>urljoin\<close>: \<open>urllib.parse.urljoin\<close>, which can raise \<open>ValueError\<close>.
  \<^item> \<open>list_of_set\<close>: the order in which \<open>list(s)\<close> lists the elements of a set of
    strings (it depends on the hash seed of the interpreter).
  \<^item> \<open>argsort\<close>: the \<open>argsort\<close> of numpy that \<open>sort_values\<close> runs on the keys, with the
    default \<open>kind="quicksort"\<close>, which is not documented as stable.
\<close>

record env =
  http_get :: "string \<Rightarrow> node option"
  urljoin :: "string \<Rightarrow> string \<Rightarrow> error + string"
  list_of_set :: "string list \<Rightarrow> string list"
  argsort :: "string list \<Rightarrow> nat list"

section \<open>CSS selection\<close>

text \<open>
  \<open>soup.select(selector)\<close> for a selector that is a chain of compound selectors joined by
  the descendant combinator. A compound selector is a tag name, an optional id and a list
  of classes; the \<open>class\<close> attribute of a tag is a list of names separated by white space.
\<close>

datatype compound = Compound string "string option" "string list"

fun matches :: "compound \<Rightarrow> node \<Rightarrow> bool" where
  "matches (Compound t i cls) (Tag n a cs) =
     (n = t
      \<and> (case i of None \<Rightarrow> True | Some v \<Rightarrow> map_of a ''id'' = Some v)
      \<and> list_all (\<lambda>c. c \<in> set (case map_of a ''class'' of None \<Rightarrow> [] | Some v \<Rightarrow> split v)) cls)"
| "matches (Compound t i cls) (Text s) = False"
| "matches (Compound t i cls) (Special s) = False"

text \<open>
  The tags below a node that match the last compound selector and have ancestors, from
  the outside in, that match the selectors before it. \<open>sel\<close> is what is left of the chain
  once the ancestors have matched as much of it as they can.
\<close>

fun select_from :: "compound list \<Rightarrow> node \<Rightarrow> node list"
  and select_from_list :: "compound list \<Rightarrow> node list \<Rightarrow> node list"
  and select_at :: "compound list \<Rightarrow> node \<Rightarrow> node list" where
  "select_from sel (Tag n a cs) = select_from_list sel cs"
| "select_from sel (Text s) = []"
| "select_from sel (Special s) = []"
| "select_from_list sel [] = []"
| "select_from_list sel (c # cs) = select_at sel c @ select_from_list sel cs"
| "select_at [] (Tag n a cs) = []"
| "select_at [c] (Tag n a cs) =
     (if matches c (Tag n a cs) then Tag n a cs # select_from_list [c] cs
      else select_from_list [c] cs)"
| "select_at (c # c' # rest) (Tag n a cs) =
     (if matches c (Tag n a cs) then select_from_list (c' # rest) cs
      else select_from_list (c # c' # rest) cs)"
| "select_at sel (Text s) = []"
| "select_at sel (Special s) = []"

definition article_selector :: "compound list" where
  "article_selector =
     [Compound ''html'' None [],
      Compound ''body'' None [],
      Compound ''div'' (Some ''jm-allpage'') [''nofluid''],
      Compound ''div'' (Some ''jm-mainpage'') [],
      Compound ''div'' (Some ''jm-mainpage-in'') [],
      Compound ''div'' (Some ''jm-main'') [''lcr'', ''scheme1'', ''nocolumns'', ''clearfix''],
      Compound ''div'' (Some ''jm-maincontent'') [],
      Compound ''main'' None [''home-special'', ''home-mid''],
      Compound ''div'' None [''container''],
      Compound ''section'' None [],
      Compound ''div'' None [''row'', ''row-extra'', ''row-news'', ''row-clear-4''],
      Compound ''div'' None [''blog''],
      Compound ''div'' None [''contentboxes''],
      Compound ''div'' None [''box'', ''col-sm-6'', ''col-md-3''],
      Compound ''div'' None [''item'']]"

section \<open>Link discovery\<close>

text \<open>The anchors of the article boxes of an index page, in the order of the comprehension.\<close>

definition box_anchors :: "node \<Rightarrow> node list" where
  "box_anchors soup = concat (map (find_all ''a'') (select_from article_selector soup))"

text \<open>
  The list comprehension of \<open>get_discursos_urls\<close>, over the anchors: \<open>a.get("href")\<close> is
  \<open>None\<close> for an anchor without the attribute, and \<open>None.lower()\<close> raises
  \<open>AttributeError\<close>. \<open>resolve\<close> is what the script does with a qualifying href.
\<close>

fun discursos_urls :: "(string \<Rightarrow> error + string) \<Rightarrow> string \<Rightarrow> node list \<Rightarrow> error + string list" where
  "discursos_urls resolve keyword [] = Inr []"
| "discursos_urls resolve keyword (a # as) =
     (case get_attr ''href'' a of
        None \<Rightarrow> Inl AttributeError
      | Some href \<Rightarrow>
          if contains (lower href) keyword then
            (case resolve href of
               Inl e \<Rightarrow> Inl e
             | Inr url \<Rightarrow>
                 (case discursos_urls resolve keyword as of
                    Inl e \<Rightarrow> Inl e
                  | Inr urls \<Rightarrow> Inr (url # urls)))
          else discursos_urls resolve keyword as)"

text \<open>\<open>get_discursos_urls\<close> of \<open>collect_and_update_data.py\<close>: \<open>urljoin(base_url, href)\<close>.\<close>

definition collect_get_discursos_urls :: "env \<Rightarrow> string \<Rightarrow> string \<Rightarrow> error + string list" where
  "collect_get_discursos_urls e base_url keyword =
     (case http_get e base_url of
        None \<Rightarrow> Inr []
      | Some soup \<Rightarrow> discursos_urls (urljoin e base_url) keyword (box_anchors soup))"

text \<open>\<open>get_discursos_urls\<close> of \<open>monitor_website.py\<close>: the f-string \<open>{base_url}{href}\<close>.\<close>

definition monitor_get_discursos_urls :: "env \<Rightarrow> string \<Rightarrow> string \<Rightarrow> error + string list" where
  "monitor_get_discursos_urls e base_url keyword =
     (case http_get e base_url of
        None \<Rightarrow> Inr []
      | Some soup \<Rightarrow> discursos_urls (\<lambda>href. Inr (base_url @ href)) keyword (box_anchors soup))"

text \<open>
  The hrefs of a list of anchors, and the hrefs of an index page that qualify: those of
  the anchors of the article boxes in which the keyword occurs once the href is in lower
  case.
\<close>

definition anchor_hrefs :: "node list \<Rightarrow> string list" where
  "anchor_hrefs as =
     concat (map (\<lambda>a. case get_attr ''href'' a of None \<Rightarrow> [] | Some href \<Rightarrow> [href]) as)"

definition qualifying_hrefs :: "string \<Rightarrow> node \<Rightarrow> string list" where
  "qualifying_hrefs keyword soup =
     filter (\<lambda>href. contains (lower href) keyword) (anchor_hrefs (box_anchors soup))"

definition has_href :: "node \<Rightarrow> bool" where
  "has_href a = (get_attr ''href'' a \<noteq> None)"

text \<open>
  An index page with the markup that the selector expects and one article box that holds
  the given nodes.
\<close>

definition index_page :: "node list \<Rightarrow> node" where
  "index_page box =
     Tag ''[document]'' []
      [Tag ''html'' []
       [Tag ''body'' []
        [Tag ''div'' [(''id'', ''jm-allpage''), (''class'', ''nofluid'')]
         [Tag ''div'' [(''id'', ''jm-mainpage'')]
          [Tag ''div'' [(''id'', ''jm-mainpage-in'')]
           [Tag ''div'' [(''id'', ''jm-main''), (''class'', ''lcr scheme1 nocolumns clearfix'')]
            [Tag ''div'' [(''id'', ''jm-maincontent'')]
             [Tag ''main'' [(''class'', ''home-special home-mid'')]
              [Tag ''div'' [(''class'', ''container'')]
               [Tag ''section'' []
                [Tag ''div'' [(''class'', ''row row-extra row-news row-clear-4'')]
                 [Tag ''div'' [(''class'', ''blog'')]
                  [Tag ''div'' [(''class'', ''contentboxes'')]
                   [Tag ''div'' [(''class'', ''box col-sm-6 col-md-3'')]
                    [Tag ''div'' [(''class'', ''item'')] box]]]]]]]]]]]]]]]"

section \<open>A model of \<open>urllib.parse.urljoin\<close>\<close>

text \<open>
  \<open>urljoin\<close> belongs to the Python library. The functions of the scripts take it from the
  environment; \<open>py_urljoin\<close> follows the library's code as it is in CPython 3.11
  (\<open>urlsplit\<close>, \<open>urlparse\<close>, \<open>urljoin\<close>, \<open>urlunparse\<close>, and the parsers of the module
  \<open>ipaddress\<close> that check a host in brackets) and is what the examples run. The check
  \<open>_checknetloc\<close> is left out: it raises only when the NFKC form of a character of the
  network location holds one of \<open>/?#@:\<close>, which no code point below 256 does.
\<close>

fun split_first :: "char \<Rightarrow> string \<Rightarrow> (string \<times> string) option" where
  "split_first c [] = None"
| "split_first c (x # xs) =
     (if x = c then Some ([], xs)
      else (case split_first c xs of None \<Rightarrow> None | Some (a, b) \<Rightarrow> Some (x # a, b)))"

text \<open>\<open>s.split(sep)\<close> for a separator of one character: empty pieces are kept.\<close>

fun split_on :: "char \<Rightarrow> string \<Rightarrow> string list" where
  "split_on c [] = [[]]"
| "split_on c (x # xs) =
     (if x = c then [] # split_on c xs
      else (case split_on c xs of [] \<Rightarrow> [[x]] | p # ps \<Rightarrow> (x # p) # ps))"

definition scheme_chars :: string where
  "scheme_chars = ''abcdefghijklmnopqrstuvwxyzABCDEFGHIJKLMNOPQRSTUVWXYZ0123456789+-.''"

definition is_ascii_alpha :: "char \<Rightarrow> bool" where
  "is_ascii_alpha c = (in_range CHR ''a'' CHR ''z'' c \<or> in_range CHR ''A'' CHR ''Z'' c)"

definition c0_or_space :: "char \<Rightarrow> bool" where
  "c0_or_space c = ((of_char c :: nat) \<le> 32)"

definition unsafe_byte :: "char \<Rightarrow> bool" where
  "unsafe_byte c = (c = CHR 0x09 \<or> c = CHR 0x0D \<or> c = CHR 0x0A)"

definition uses_relative :: "string list" where
  "uses_relative = [[], ''ftp'', ''http'', ''gopher'', ''nntp'', ''imap'', ''wais'', ''file'',
     ''https'', ''shttp'', ''mms'', ''prospero'', ''rtsp'', ''rtsps'', ''rtspu'', ''sftp'',
     ''svn'', ''svn+ssh'', ''ws'', ''wss'']"

definition uses_netloc :: "string list" where
  "uses_netloc = [[], ''ftp'', ''http'', ''gopher'', ''nntp'', ''telnet'', ''imap'', ''wais'',
     ''file'', ''mms'', ''https'', ''shttp'', ''snews'', ''prospero'', ''rtsp'', ''rtsps'',
     ''rtspu'', ''rsync'', ''svn'', ''svn+ssh'', ''sftp'', ''nfs'', ''git'', ''git+ssh'',
     ''ws'', ''wss'']"

definition uses_params :: "string list" where
  "uses_params = [[], ''ftp'', ''hdl'', ''prospero'', ''http'', ''imap'', ''https'', ''shttp'',
     ''rtsp'', ''rtsps'', ''rtspu'', ''sip'', ''sips'', ''mms'', ''sftp'', ''tel'']"

text \<open>
  \<open>IPv4Address(s)\<close> does not raise: four octets, each of one to three decimal digits
  without a leading zero and at most 255.
\<close>

definition parse_octet_ok :: "string \<Rightarrow> bool" where
  "parse_octet_ok octet_str =
     (octet_str \<noteq> [] \<and> list_all is_digit octet_str \<and> length octet_str \<le> 3
      \<and> (octet_str = ''0'' \<or> hd octet_str \<noteq> CHR ''0'') \<and> py_int octet_str \<le> 255)"

definition ipv4_address_ok :: "string \<Rightarrow> bool" where
  "ipv4_address_ok addr_str =
     (CHR ''/'' \<notin> set addr_str \<and> addr_str \<noteq> []
      \<and> length (split_on CHR ''.'' addr_str) = 4
      \<and> list_all parse_octet_ok (split_on CHR ''.'' addr_str))"

text \<open>
  \<open>IPv6Address(s)\<close> does not raise. \<open>_ip_int_from_string\<close> splits the address at the
  colons; an IPv4 suffix is checked and replaced by two hextets (they are never empty and
  always parse, \<open>0\<close> stands for each); \<open>::\<close> may occur once, and \<open>parts_hi\<close> hextets before
  it and \<open>parts_lo\<close> after it are parsed. A scope id may follow a \<open>%\<close>.
\<close>

definition is_hex :: "char \<Rightarrow> bool" where
  "is_hex c = (c \<in> set ''0123456789ABCDEFabcdef'')"

definition parse_hextet_ok :: "string \<Rightarrow> bool" where
  "parse_hextet_ok hextet_str =
     (list_all is_hex hextet_str \<and> length hextet_str \<le> 4 \<and> hextet_str \<noteq> [])"

definition ipv6_parts_ok :: "string list \<Rightarrow> bool" where
  "ipv6_parts_ok parts =
     (let n = length parts
      in if n > 9 then False
         else
           (case filter (\<lambda>i. parts ! i = []) [1 ..< n - 1] of
              [] \<Rightarrow> n = 8 \<and> hd parts \<noteq> [] \<and> last parts \<noteq> [] \<and> list_all parse_hextet_ok parts
            | [skip_index] \<Rightarrow>
                let parts_hi = (if hd parts = [] then skip_index - 1 else skip_index);
                    parts_lo = (if last parts = [] then n - skip_index - 2 else n - skip_index - 1)
                in (if hd parts = [] then parts_hi = 0 else True)
                   \<and> (if last parts = [] then parts_lo = 0 else True)
                   \<and> parts_hi + parts_lo \<le> 7
                   \<and> list_all parse_hextet_ok (take parts_hi parts)
                   \<and> list_all parse_hextet_ok (drop (n - parts_lo) parts)
            | skip_index # others \<Rightarrow> False))"

definition ipv6_int_ok :: "string \<Rightarrow> bool" where
  "ipv6_int_ok ip_str =
     (let parts = split_on CHR '':'' ip_str
      in if ip_str = [] \<or> length parts < 3 then False
         else if CHR ''.'' \<in> set (last parts)
         then ipv4_address_ok (last parts) \<and> ipv6_parts_ok (butlast parts @ [''0'', ''0''])
         else ipv6_parts_ok parts)"

definition ipv6_address_ok :: "string \<Rightarrow> bool" where
  "ipv6_address_ok addr_str =
     (CHR ''/'' \<notin> set addr_str
      \<and> (case split_first CHR ''%'' addr_str of
             None \<Rightarrow> ipv6_int_ok addr_str
           | Some (addr, scope_id) \<Rightarrow>
               scope_id \<noteq> [] \<and> CHR ''%'' \<notin> set scope_id \<and> ipv6_int_ok addr))"

text \<open>
  \<open>_check_bracketed_host\<close> does not raise: the host is an IPvFuture address (the letter
  \<open>v\<close>, one or more hexadecimal digits, a dot, one or more characters other than a line
  feed), or \<open>ipaddress.ip_address\<close> reads it as an IPv6 address.
\<close>

definition check_bracketed_host :: "string \<Rightarrow> bool" where
  "check_bracketed_host hostname =
     (if take 1 hostname = ''v''
      then (let rest = dropWhile is_hex (tl hostname)
            in takeWhile is_hex (tl hostname) \<noteq> [] \<and> take 1 rest = ''.'' \<and> tl rest \<noteq> []
               \<and> CHR 0x0A \<notin> set (tl rest))
      else \<not> ipv4_address_ok hostname \<and> ipv6_address_ok hostname)"

text \<open>
  \<open>urlsplit(url, scheme)\<close>: scheme, network location, path, query, fragment. It raises
  \<open>ValueError\<close> when only one of the brackets is in the network location, and when what
  is between them is not a host that may stand in brackets.
\<close>

definition urlsplit :: "string \<Rightarrow> string \<Rightarrow> error + (string \<times> string \<times> string \<times> string \<times> string)" where
  "urlsplit url0 scheme0 =
     (let url1 = filter (\<lambda>c. \<not> unsafe_byte c) (dropWhile c0_or_space url0);
          scheme1 = filter (\<lambda>c. \<not> unsafe_byte c)
                      (rev (dropWhile c0_or_space (rev (dropWhile c0_or_space scheme0))));
          (scheme, url2) =
            (case split_first CHR '':'' url1 of
               None \<Rightarrow> (scheme1, url1)
             | Some (s, rest) \<Rightarrow>
                 if s \<noteq> [] \<and> is_ascii_alpha (hd s) \<and> list_all (\<lambda>c. c \<in> set scheme_chars) s
                 then (lower s, rest) else (scheme1, url1));
          (netloc, url3) =
            (if take 2 url2 = ''//''
             then (takeWhile (\<lambda>c. c \<notin> set ''/?#'') (drop 2 url2),
                   dropWhile (\<lambda>c. c \<notin> set ''/?#'') (drop 2 url2))
             else ([], url2));
          bracketed_host = takeWhile (\<lambda>c. c \<noteq> CHR '']'') (drop 1 (dropWhile (\<lambda>c. c \<noteq> CHR ''['') netloc))
      in if (CHR ''['' \<in> set netloc \<and> CHR '']'' \<notin> set netloc)
            \<or> (CHR '']'' \<in> set netloc \<and> CHR ''['' \<notin> set netloc)
         then Inl ValueError
         else if CHR ''['' \<in> set netloc \<and> CHR '']'' \<in> set netloc \<and> \<not> check_bracketed_host bracketed_host
         then Inl ValueError
         else
           let (url4, fragment) =
                 (case split_first CHR ''#'' url3 of None \<Rightarrow> (url3, []) | Some ab \<Rightarrow> ab);
               (path, query) =
                 (case split_first CHR ''?'' url4 of None \<Rightarrow> (url4, []) | Some ab \<Rightarrow> ab)
           in Inr (scheme, netloc, path, query, fragment))"

text \<open>
  \<open>_splitparams\<close>: the parameters follow the first \<open>;\<close> of the last segment of the path.
\<close>

definition splitparams :: "string \<Rightarrow> string \<times> string" where
  "splitparams url =
     (let segs = split_on CHR ''/'' url;
          front = join ''/'' (butlast segs);
          lead = (if length segs > 1 then front @ ''/'' else [])
      in (case split_first CHR '';'' (last segs) of
            None \<Rightarrow> (url, [])
          | Some (a, b) \<Rightarrow> (lead @ a, b)))"

text \<open>\<open>urlparse(url, scheme)\<close>: scheme, network location, path, params, query, fragment.\<close>

definition urlparse ::
  "string \<Rightarrow> string \<Rightarrow> error + (string \<times> string \<times> string \<times> string \<times> string \<times> string)" where
  "urlparse url scheme0 =
     (case urlsplit url scheme0 of
        Inl e \<Rightarrow> Inl e
      | Inr (scheme, netloc, path, query, fragment) \<Rightarrow>
          if scheme \<in> set uses_params \<and> CHR '';'' \<in> set path
          then (case splitparams path of (path', params) \<Rightarrow>
                  Inr (scheme, netloc, path', params, query, fragment))
          else Inr (scheme, netloc, path, [], query, fragment))"

definition urlunparse :: "string \<times> string \<times> string \<times> string \<times> string \<times> string \<Rightarrow> string" where
  "urlunparse parts =
     (case parts of (scheme, netloc, path, params, query, fragment) \<Rightarrow>
        let url = (if params \<noteq> [] then path @ '';'' @ params else path);
            url = (if netloc \<noteq> [] \<or> (scheme \<noteq> [] \<and> scheme \<in> set uses_netloc) \<or> take 2 url = ''//''
                   then ''//'' @ netloc @ (if url \<noteq> [] \<and> take 1 url \<noteq> ''/'' then ''/'' @ url else url)
                   else url);
            url = (if scheme \<noteq> [] then scheme @ '':'' @ url else url);
            url = (if query \<noteq> [] then url @ ''?'' @ query else url)
        in (if fragment \<noteq> [] then url @ ''#'' @ fragment else url))"

text \<open>The loop of \<open>urljoin\<close> over the segments: \<open>..\<close> pops, \<open>.\<close> is skipped.\<close>

fun resolve_segments :: "string list \<Rightarrow> string list \<Rightarrow> string list" where
  "resolve_segments resolved [] = resolved"
| "resolve_segments resolved (seg # segs) =
     (if seg = ''..'' then resolve_segments (butlast resolved) segs
      else if seg = ''.'' then resolve_segments resolved segs
      else resolve_segments (resolved @ [seg]) segs)"

text \<open>\<open>segments[1:-1] = filter(None, segments[1:-1])\<close>.\<close>

definition drop_empty_middle :: "string list \<Rightarrow> string list" where
  "drop_empty_middle segs =
     (if length segs < 2 then segs
      else hd segs # filter (\<lambda>s. s \<noteq> []) (butlast (tl segs)) @ [last segs])"

definition py_urljoin :: "string \<Rightarrow> string \<Rightarrow> error + string" where
  "py_urljoin base url =
     (if base = [] then Inr url
      else if url = [] then Inr base
      else
        (case urlparse base [] of
           Inl e \<Rightarrow> Inl e
         | Inr (bscheme, bnetloc, bpath, bparams, bquery, bfragment) \<Rightarrow>
             (case urlparse url bscheme of
                Inl e \<Rightarrow> Inl e
              | Inr (scheme, netloc, path, params, query, fragment) \<Rightarrow>
                  if scheme \<noteq> bscheme \<or> scheme \<notin> set uses_relative then Inr url
                  else if scheme \<in> set uses_netloc \<and> netloc \<noteq> []
                  then Inr (urlunparse (scheme, netloc, path, params, query, fragment))
                  else
                    let netloc = (if scheme \<in> set uses_netloc then bnetloc else netloc)
                    in if path = [] \<and> params = []
                       then Inr (urlunparse (scheme, netloc, bpath, bparams,
                                   (if query = [] then bquery else query), fragment))
                       else
                         let base_parts = split_on CHR ''/'' bpath;
                             base_parts = (if last base_parts \<noteq> [] then butlast base_parts
                                           else base_parts);
                             segments = (if take 1 path = ''/'' then split_on CHR ''/'' path
                                         else drop_empty_middle
                                                (base_parts @ split_on CHR ''/'' path));
                             resolved = resolve_segments [] segments;
                             resolved = (if last segments = ''.'' \<or> last segments = ''..''
                                         then resolved @ [[]] else resolved);
                             joined = join ''/'' resolved
                         in Inr (urlunparse (scheme, netloc,
                                   (if joined = [] then ''/'' else joined),
                                   params, query, fragment)))))"

section \<open>Ordering strings and sorting indices\<close>

text \<open>\<open>a < b\<close> on Python strings: lexicographic, by code point.\<close>

fun str_less :: "string \<Rightarrow> string \<Rightarrow> bool" where
  "str_less [] [] = False"
| "str_less [] (y # ys) = True"
| "str_less (x # xs) [] = False"
| "str_less (x # xs) (y # ys) = ((of_char x :: nat) < of_char y \<or> (x = y \<and> str_less xs ys))"

definition str_le :: "string \<Rightarrow> string \<Rightarrow> bool" where
  "str_le a b = (\<not> str_less b a)"

text \<open>
  Two ways to sort the indices of a list of keys, both by insertion: \<open>stable_argsort\<close>
  keeps equal keys in the order of their indices, \<open>unstable_argsort\<close> reverses it. Either
  is an \<open>argsort\<close> that an environment may have.
\<close>

fun insert_after :: "string list \<Rightarrow> nat \<Rightarrow> nat list \<Rightarrow> nat list" where
  "insert_after ks i [] = [i]"
| "insert_after ks i (j # js) =
     (if str_less (ks ! i) (ks ! j) then i # j # js else j # insert_after ks i js)"

fun insert_before :: "string list \<Rightarrow> nat \<Rightarrow> nat list \<Rightarrow> nat list" where
  "insert_before ks i [] = [i]"
| "insert_before ks i (j # js) =
     (if str_le (ks ! i) (ks ! j) then i # j # js else j # insert_before ks i js)"

definition stable_argsort :: "string list \<Rightarrow> nat list" where
  "stable_argsort ks = foldl (\<lambda>acc i. insert_after ks i acc) [] [0 ..< length ks]"

definition unstable_argsort :: "string list \<Rightarrow> nat list" where
  "unstable_argsort ks = foldl (\<lambda>acc i. insert_before ks i acc) [] [0 ..< length ks]"

text \<open>
  An environment for the examples: the given web, \<open>py_urljoin\<close>, sets listed in the order
  given, and a stable \<open>argsort\<close>.
\<close>

definition py_env :: "(string \<Rightarrow> node option) \<Rightarrow> env" where
  "py_env web =
     \<lparr>http_get = web, urljoin = py_urljoin, list_of_set = (\<lambda>xs. xs), argsort = stable_argsort\<rparr>"

text \<open>
  The index page of the test \<open>test_get_discursos_urls\<close>, put into the markup that the
  selector expects: one article box with the anchor \<open><a href='milei-speech'>Link</a>\<close>.
\<close>

definition test_index_page :: node where
  "test_index_page = index_page [Tag ''a'' [(''href'', ''milei-speech'')] [Text ''Link'']]"

text \<open>An index page with an anchor that has no \<open>href\<close>, after one that has.\<close>

definition bare_anchor_page :: node where
  "bare_anchor_page =
     index_page [Tag ''a'' [(''href'', ''milei-speech'')] [Text ''Link''],
                 Tag ''a'' [(''name'', ''top'')] []]"

text \<open>
  The page of the test \<open>test_get_discursos_urls\<close> as the test writes it,
  \<open><html><a href='milei-speech'>Link</a></html>\<close>: it has none of the markup that the
  selector expects.
\<close>

definition test_page_as_written :: node where
  "test_page_as_written =
     Tag ''[document]'' []
       [Tag ''html'' [] [Tag ''a'' [(''href'', ''milei-speech'')] [Text ''Link'']]]"

text \<open>An index page whose article box links to an article by a path from the root.\<close>

definition root_relative_page :: node where
  "root_relative_page =
     index_page [Tag ''a'' [(''href'', ''/informacion/discursos/50-milei'')] [Text ''Discurso'']]"

section \<open>Assembling the records\<close>

text \<open>
  One record: the dictionary \<open>{"title", "content", "date", "url"}\<close> of \<open>create_data\<close>, and
  one row of the four lists of \<open>create_dataframe\<close>. An absent field is \<open>None\<close>.
\<close>

record discurso =
  rec_title :: "string option"
  rec_content :: "string option"
  rec_date :: "string option"
  rec_url :: string

text \<open>
  The loop of \<open>create_dataframe\<close> (\<open>collect_and_update_data.py\<close>): a URL whose fetch fails
  is skipped; an exception of \<open>get_date\<close> ends the loop.
\<close>

fun collect_rows :: "env \<Rightarrow> string list \<Rightarrow> error + discurso list" where
  "collect_rows e [] = Inr []"
| "collect_rows e (u # urls) =
     (case http_get e u of
        None \<Rightarrow> collect_rows e urls
      | Some soup \<Rightarrow>
          (case collect_get_date soup of
             Inl err \<Rightarrow> Inl err
           | Inr d \<Rightarrow>
               (case collect_rows e urls of
                  Inl err \<Rightarrow> Inl err
                | Inr rs \<Rightarrow>
                    Inr (\<lparr>rec_title = get_title soup, rec_content = get_article_content soup,
                          rec_date = d, rec_url = u\<rparr> # rs))))"

text \<open>
  \<open>create_data\<close> (\<open>monitor_website.py\<close>): \<open>asyncio.gather\<close> returns the documents in the
  order of the URLs, whatever the order in which the requests complete, and the loop
  pairs them with the URLs by \<open>zip\<close>.
\<close>

fun create_data_loop :: "(string \<times> node option) list \<Rightarrow> error + discurso list" where
  "create_data_loop [] = Inr []"
| "create_data_loop ((u, None) # rest) = create_data_loop rest"
| "create_data_loop ((u, Some soup) # rest) =
     (case monitor_get_date soup of
        Inl err \<Rightarrow> Inl err
      | Inr d \<Rightarrow>
          (case create_data_loop rest of
             Inl err \<Rightarrow> Inl err
           | Inr rs \<Rightarrow>
               Inr (\<lparr>rec_title = get_title soup, rec_content = get_article_content soup,
                     rec_date = d, rec_url = u\<rparr> # rs)))"

definition create_data :: "env \<Rightarrow> string list \<Rightarrow> error + discurso list" where
  "create_data e urls =
     (let soups = map (http_get e) urls
      in create_data_loop (zip urls soups))"

text \<open>The records that extraction gives for a fetched document, for each script.\<close>

definition collect_record :: "node \<Rightarrow> string \<Rightarrow> error + discurso" where
  "collect_record soup u =
     (case collect_get_date soup of
        Inl err \<Rightarrow> Inl err
      | Inr d \<Rightarrow> Inr \<lparr>rec_title = get_title soup, rec_content = get_article_content soup,
                       rec_date = d, rec_url = u\<rparr>)"

definition monitor_record :: "node \<Rightarrow> string \<Rightarrow> error + discurso" where
  "monitor_record soup u =
     (case monitor_get_date soup of
        Inl err \<Rightarrow> Inl err
      | Inr d \<Rightarrow> Inr \<lparr>rec_title = get_title soup, rec_content = get_article_content soup,
                       rec_date = d, rec_url = u\<rparr>)"

definition fetched :: "env \<Rightarrow> string \<Rightarrow> bool" where
  "fetched e u = (http_get e u \<noteq> None)"

section \<open>The persisted store\<close>

text \<open>
  The CSV file of a keyword: \<open>None\<close> when the file does not exist, else its lines, each
  the list of its cells. Quoting is left out, and writing always succeeds.
\<close>

type_synonym csv_file = "string list list option"

text \<open>
  A pandas \<open>DataFrame\<close>: the names of its columns and its rows; a cell is \<open>None\<close> for
  \<open>NaN\<close>. Cells stay strings: the inference of numeric columns by \<open>read_csv\<close> is left out.
\<close>

record dataframe =
  df_columns :: "string list"
  df_rows :: "string option list list"

definition csv_header :: "string list" where
  "csv_header = [''title'', ''content'', ''date'', ''url'']"

text \<open>The strings that \<open>pd.read_csv\<close> reads as \<open>NaN\<close> by default.\<close>

definition na_values :: "string list" where
  "na_values = [[], ''#N/A'', ''#N/A N/A'', ''#NA'', ''-1.#IND'', ''-1.#QNAN'', ''-NaN'',
     ''-nan'', ''1.#IND'', ''1.#QNAN'', ''<NA>'', ''N/A'', ''NA'', ''NULL'', ''NaN'', ''None'',
     ''n/a'', ''nan'', ''null'']"

definition parse_cell :: "string \<Rightarrow> string option" where
  "parse_cell s = (if s \<in> set na_values then None else Some s)"

definition cell_text :: "string option \<Rightarrow> string" where
  "cell_text c = (case c of None \<Rightarrow> [] | Some s \<Rightarrow> s)"

text \<open>
  \<open>pd.read_csv(file)\<close>: the first line names the columns; a file without lines raises
  \<open>EmptyDataError\<close>.
\<close>

definition read_csv :: "string list list \<Rightarrow> error + dataframe" where
  "read_csv lines =
     (case lines of
        [] \<Rightarrow> Inl EmptyDataError
      | h # rs \<Rightarrow> Inr \<lparr>df_columns = h, df_rows = map (map parse_cell) rs\<rparr>)"

text \<open>\<open>df.to_csv(file, index=False)\<close>: the header line, then the rows.\<close>

definition to_csv :: "dataframe \<Rightarrow> string list list" where
  "to_csv df = df_columns df # map (map cell_text) (df_rows df)"

fun index_of :: "string \<Rightarrow> string list \<Rightarrow> nat option" where
  "index_of c [] = None"
| "index_of c (x # xs) =
     (if x = c then Some 0 else (case index_of c xs of None \<Rightarrow> None | Some i \<Rightarrow> Some (Suc i)))"

definition cell_at :: "string option list \<Rightarrow> nat \<Rightarrow> string option" where
  "cell_at r i = (if i < length r then r ! i else None)"

text \<open>\<open>df[name].tolist()\<close>: \<open>KeyError\<close> when there is no such column.\<close>

definition column :: "dataframe \<Rightarrow> string \<Rightarrow> error + string option list" where
  "column df name =
     (case index_of name (df_columns df) of
        None \<Rightarrow> Inl KeyError
      | Some i \<Rightarrow> Inr (map (\<lambda>r. cell_at r i) (df_rows df)))"

text \<open>
  \<open>pd.concat([a, b], ignore_index=True)\<close>: the columns of \<open>a\<close>, then those of \<open>b\<close> that
  \<open>a\<close> does not have; a row has \<open>NaN\<close> in a column that its frame does not have.
\<close>

definition realign :: "string list \<Rightarrow> string list \<Rightarrow> string option list \<Rightarrow> string option list" where
  "realign new_cols old_cols r =
     map (\<lambda>c. case index_of c old_cols of None \<Rightarrow> None | Some i \<Rightarrow> cell_at r i) new_cols"

definition concat_frames :: "dataframe \<Rightarrow> dataframe \<Rightarrow> dataframe" where
  "concat_frames a b =
     (let cols = df_columns a @ filter (\<lambda>c. c \<notin> set (df_columns a)) (df_columns b)
      in \<lparr>df_columns = cols,
          df_rows = map (realign cols (df_columns a)) (df_rows a)
                    @ map (realign cols (df_columns b)) (df_rows b)\<rparr>)"

text \<open>
  \<open>df.sort_values(by=name, ascending=False)\<close>, as \<open>nargsort\<close> of pandas does it: the rows
  whose key is \<open>NaN\<close> go last, in their order; the other rows are reversed, put in the
  order that \<open>argsort\<close> gives for their keys, and reversed again.
\<close>

definition keyed_rows :: "nat \<Rightarrow> string option list list \<Rightarrow> (string \<times> string option list) list" where
  "keyed_rows i rs =
     concat (map (\<lambda>r. case cell_at r i of None \<Rightarrow> [] | Some k \<Rightarrow> [(k, r)]) rs)"

definition unkeyed_rows :: "nat \<Rightarrow> string option list list \<Rightarrow> string option list list" where
  "unkeyed_rows i rs = filter (\<lambda>r. cell_at r i = None) rs"

definition sort_rows_descending ::
  "(string list \<Rightarrow> nat list) \<Rightarrow> nat \<Rightarrow> string option list list \<Rightarrow> string option list list" where
  "sort_rows_descending asort i rs =
     (let non_nans = rev (keyed_rows i rs);
          indexer = asort (map fst non_nans)
      in rev (map (\<lambda>j. snd (non_nans ! j)) indexer) @ unkeyed_rows i rs)"

definition sort_values :: "env \<Rightarrow> dataframe \<Rightarrow> string \<Rightarrow> error + dataframe" where
  "sort_values e df name =
     (case index_of name (df_columns df) of
        None \<Rightarrow> Inl KeyError
      | Some i \<Rightarrow> Inr (df\<lparr>df_rows := sort_rows_descending (argsort e) i (df_rows df)\<rparr>))"

section \<open>The driver of \<open>collect_and_update_data.py\<close>\<close>

definition discursos_url :: string where
  "discursos_url = ''https://www.casarosada.gob.ar/informacion/discursos/''"

definition frame_row :: "discurso \<Rightarrow> string option list" where
  "frame_row r = [rec_title r, rec_content r, rec_date r, Some (rec_url r)]"

definition create_dataframe :: "env \<Rightarrow> string list \<Rightarrow> error + dataframe" where
  "create_dataframe e urls =
     (case collect_rows e urls of
        Inl err \<Rightarrow> Inl err
      | Inr rs \<Rightarrow> Inr \<lparr>df_columns = csv_header, df_rows = map frame_row rs\<rparr>)"

text \<open>The \<open>url\<close> column of the store; no URLs when the file does not exist.\<close>

definition existing_urls_of :: "csv_file \<Rightarrow> error + string option list" where
  "existing_urls_of fs =
     (case fs of
        None \<Rightarrow> Inr []
      | Some lines \<Rightarrow>
          (case read_csv lines of Inl err \<Rightarrow> Inl err | Inr existing_data \<Rightarrow> column existing_data ''url''))"

text \<open>
  \<open>check_csv_exists_and_fetch_missing\<close>: \<open>list(set(current_urls).difference(existing_urls))\<close>.
\<close>

definition check_csv_exists_and_fetch_missing :: "env \<Rightarrow> string \<Rightarrow> csv_file \<Rightarrow> error + string list" where
  "check_csv_exists_and_fetch_missing e keyword fs =
     (case existing_urls_of fs of
        Inl err \<Rightarrow> Inl err
      | Inr existing_urls \<Rightarrow>
          (case collect_get_discursos_urls e discursos_url keyword of
             Inl err \<Rightarrow> Inl err
           | Inr current_urls \<Rightarrow>
               Inr (list_of_set e
                      (remdups (filter (\<lambda>u. Some u \<notin> set existing_urls) current_urls)))))"

text \<open>The branch of \<open>main\<close> for new URLs: concatenate, sort by date, write the whole store.\<close>

definition update_store :: "env \<Rightarrow> string list \<Rightarrow> csv_file \<Rightarrow> error + csv_file" where
  "update_store e new_urls fs =
     (case create_dataframe e new_urls of
        Inl err \<Rightarrow> Inl err
      | Inr new_data \<Rightarrow>
          (case fs of
             None \<Rightarrow> Inr (Some (to_csv new_data))
           | Some lines \<Rightarrow>
               (case read_csv lines of
                  Inl err \<Rightarrow> (if err = EmptyDataError then Inr fs else Inl err)
                | Inr existing_data \<Rightarrow>
                    (case sort_values e (concat_frames existing_data new_data) ''date'' of
                       Inl err \<Rightarrow> Inl err
                     | Inr combined_data \<Rightarrow> Inr (Some (to_csv combined_data))))))"

text \<open>The branch of \<open>main\<close> without new URLs: fetch every listed URL, write a new store.\<close>

definition collect_all :: "env \<Rightarrow> string \<Rightarrow> error + csv_file" where
  "collect_all e keyword =
     (case collect_get_discursos_urls e discursos_url keyword of
        Inl err \<Rightarrow> Inl err
      | Inr urls \<Rightarrow>
          (case create_dataframe e urls of
             Inl err \<Rightarrow> Inl err
           | Inr df \<Rightarrow> Inr (Some (to_csv df))))"

text \<open>\<open>main\<close>: the store after the run, or the exception that ends the run.\<close>

definition main :: "env \<Rightarrow> string \<Rightarrow> csv_file \<Rightarrow> error + csv_file" where
  "main e keyword fs =
     (case check_csv_exists_and_fetch_missing e keyword fs of
        Inl err \<Rightarrow> Inl err
      | Inr new_urls \<Rightarrow>
          if new_urls \<noteq> [] then update_store e new_urls fs
          else collect_all e keyword)"

section \<open>The driver of \<open>monitor_website.py\<close>\<close>

text \<open>\<open>read_csv(filename)\<close> of the script: every exception gives the empty list.\<close>

definition monitor_read_csv :: "csv_file \<Rightarrow> string option list" where
  "monitor_read_csv fs =
     (case existing_urls_of fs of Inl err \<Rightarrow> [] | Inr urls \<Rightarrow> urls)"

text \<open>
  \<open>append_to_csv\<close>: \<open>csv.DictWriter\<close> writes \<open>None\<close> as the empty string. Opening the file
  with mode \<open>"a"\<close> creates it; no header is written.
\<close>

definition csv_row :: "discurso \<Rightarrow> string list" where
  "csv_row r = [cell_text (rec_title r), cell_text (rec_content r), cell_text (rec_date r), rec_url r]"

definition append_to_csv :: "discurso list \<Rightarrow> csv_file \<Rightarrow> csv_file" where
  "append_to_csv data fs =
     Some ((case fs of None \<Rightarrow> [] | Some lines \<Rightarrow> lines) @ map csv_row data)"

definition monitor_new_urls :: "env \<Rightarrow> csv_file \<Rightarrow> error + string list" where
  "monitor_new_urls e fs =
     (case monitor_get_discursos_urls e discursos_url ''milei'' of
        Inl err \<Rightarrow> Inl err
      | Inr urls \<Rightarrow>
          Inr (filter (\<lambda>u. Some u \<notin> set (monitor_read_csv fs)) urls))"

definition main_async :: "env \<Rightarrow> csv_file \<Rightarrow> error + csv_file" where
  "main_async e fs =
     (case monitor_new_urls e fs of
        Inl err \<Rightarrow> Inl err
      | Inr new_urls \<Rightarrow>
          if new_urls \<noteq> [] then
            (case create_data e new_urls of
               Inl err \<Rightarrow> Inl err
             | Inr data \<Rightarrow> Inr (append_to_csv data fs))
          else Inr fs)"

section \<open>Example pages, webs and stores\<close>

text \<open>An article page with a title, the text of its \<open>time\<close> tag and one paragraph.\<close>

definition article_page :: "string \<Rightarrow> string \<Rightarrow> string \<Rightarrow> node" where
  "article_page t d body =
     Tag ''[document]'' []
       [Tag ''html'' []
         [Tag ''h2'' [] [Text t],
          Tag ''time'' [] [Text d],
          Tag ''article'' [] [Tag ''p'' [] [Text body]]]]"

definition url1 :: string where
  "url1 = ''https://www.casarosada.gob.ar/informacion/discursos/milei-1''"

text \<open>
  A web whose index page lists the given nodes in one article box and that serves one
  article, at \<open>url1\<close>; every other request fails.
\<close>

definition web_listing :: "node list \<Rightarrow> string \<Rightarrow> node option" where
  "web_listing box u =
     (if u = discursos_url then Some (index_page box)
      else if u = url1
      then Some (article_page ''Discurso 1'' ''lunes 13 de febrero de 2025'' ''Texto'')
      else None)"

definition one_link :: "node list" where
  "one_link = [Tag ''a'' [(''href'', ''milei-1'')] [Text ''Discurso 1'']]"

text \<open>The same link twice: around the picture and around the title of one article box.\<close>

definition two_links :: "node list" where
  "two_links = [Tag ''a'' [(''href'', ''milei-1'')] [Tag ''img'' [] []],
                Tag ''a'' [(''href'', ''milei-1'')] [Text ''Discurso 1'']]"

definition row1 :: "string list" where
  "row1 = [''Discurso 1'', ''Texto'', ''2025-02-13'', url1]"

definition old_row :: "string list" where
  "old_row = [''Discurso 0'', ''Antes'', ''2024-01-01'',
              ''https://www.casarosada.gob.ar/informacion/discursos/milei-0'']"

definition stale_row1 :: "string list" where
  "stale_row1 = [''Borrador'', ''Texto'', ''2025-02-13'', url1]"

definition row_a :: "string list" where
  "row_a = [''A'', ''Texto'', ''2024-01-01'',
            ''https://www.casarosada.gob.ar/informacion/discursos/milei-a'']"

definition row_b :: "string list" where
  "row_b = [''B'', ''Texto'', ''2024-01-01'',
            ''https://www.casarosada.gob.ar/informacion/discursos/milei-b'']"

text \<open>The day of the month as it is written: in decimal, without padding.\<close>

definition day_text :: "nat \<Rightarrow> string" where
  "day_text d = (if d < 10 then [digit_char d] else pad2 d)"

section \<open>Properties of the document queries\<close>

lemma find_all_descendants:
  "find_all name t = filter (is_tag name) (descendants t)"
  "find_all_list name ts = filter (is_tag name) (descendants_list ts)"
  by (induction name t and name ts rule: find_all_find_all_list.induct) simp_all

lemma find_tag_find_all:
  "find_tag name t = (case find_all name t of [] \<Rightarrow> None | x # xs \<Rightarrow> Some x)"
  "find_tag_list name ts = (case find_all_list name ts of [] \<Rightarrow> None | x # xs \<Rightarrow> Some x)"
  by (induction name t and name ts rule: find_tag_find_tag_list.induct)
     (auto split: list.splits option.splits)

lemma find_tag_None_iff:
  "find_tag name t = None \<longleftrightarrow> \<not> list_ex (is_tag name) (descendants t)"
proof (cases "filter (is_tag name) (descendants t)")
  case Nil
  then show ?thesis
    by (simp add: find_tag_find_all find_all_descendants list_ex_iff filter_empty_conv)
next
  case (Cons x xs)
  then have "x \<in> set (filter (is_tag name) (descendants t))" by simp
  then have "list_ex (is_tag name) (descendants t)" by (auto simp: list_ex_iff)
  with Cons show ?thesis by (simp add: find_tag_find_all find_all_descendants)
qed

lemma filter_strong_free:
  "filter (\<lambda>p. find_tag ''strong'' p = None) (find_all ''p'' a) =
   filter (\<lambda>p. is_tag ''p'' p \<and> \<not> list_ex (is_tag ''strong'') (descendants p))
     (descendants a)"
  by (simp add: find_all_descendants find_tag_None_iff conj_commute)

section \<open>Properties of the string and date functions\<close>

lemma digit_char_is_digit: "is_digit (digit_char n)"
  unfolding is_digit_def digit_char_def by (rule nth_mem) simp

lemma is_digit_cases:
  "is_digit c \<longleftrightarrow> c = CHR ''0'' \<or> c = CHR ''1'' \<or> c = CHR ''2'' \<or> c = CHR ''3'' \<or> c = CHR ''4''
     \<or> c = CHR ''5'' \<or> c = CHR ''6'' \<or> c = CHR ''7'' \<or> c = CHR ''8'' \<or> c = CHR ''9''"
  by (auto simp: is_digit_def)

lemma digit_not_space: "is_digit c \<Longrightarrow> \<not> is_space c"
  by (auto simp: is_digit_cases is_space_def)

lemma mod10_cases:
  "(k::nat) < 10 \<Longrightarrow> k = 0 \<or> k = 1 \<or> k = 2 \<or> k = 3 \<or> k = 4 \<or> k = 5 \<or> k = 6 \<or> k = 7 \<or> k = 8 \<or> k = 9"
  by arith

lemma digit_val_digit_char: "digit_val (digit_char n) = n mod 10"
proof -
  have "n mod 10 < 10" by simp
  from mod10_cases [OF this] show ?thesis
    by (elim disjE) (simp_all add: digit_val_def digit_char_def)
qed

lemma replace_from_skip:
  assumes "old \<noteq> []" and "hd old \<notin> set a"
  shows "replace_from 0 (a @ b) old new = a @ replace_from 0 b old new"
  using assms by (induction a) (auto simp: prefix_def neq_Nil_conv)

lemma replace_skip:
  assumes "old \<noteq> []" and "hd old \<notin> set a"
  shows "replace (a @ b) old new = a @ replace b old new"
  using assms by (simp add: replace_def replace_from_skip)

lemma replace_none:
  assumes "old \<noteq> []" and "hd old \<notin> set a"
  shows "replace a old new = a"
  using replace_skip [OF assms, of "[]" new] assms by (simp add: replace_def)

lemma split_from_word:
  "\<forall>c\<in>set w. \<not> is_space c \<Longrightarrow> split_from cur (w @ s) = split_from (cur @ w) s"
  by (induction w arbitrary: cur) auto

lemma split_from_word_space:
  assumes "\<forall>c\<in>set w. \<not> is_space c" and "w \<noteq> []" and "is_space c"
  shows "split_from [] (w @ c # s) = w # split_from [] s"
  using assms by (simp add: split_from_word)

lemma split_from_word_end:
  assumes "\<forall>c\<in>set w. \<not> is_space c" and "w \<noteq> []"
  shows "split_from [] w = [w]"
  using split_from_word [OF assms(1), of "[]" "[]"] assms(2) by simp

lemma month_cases:
  "1 \<le> (m::nat) \<Longrightarrow> m \<le> 12 \<Longrightarrow>
     m = 1 \<or> m = 2 \<or> m = 3 \<or> m = 4 \<or> m = 5 \<or> m = 6 \<or> m = 7 \<or> m = 8 \<or> m = 9 \<or> m = 10
     \<or> m = 11 \<or> m = 12"
  by arith

lemma replace_months_date:
  assumes ds: "\<forall>c\<in>set ds. is_digit c" and ys: "\<forall>c\<in>set ys. is_digit c"
    and m: "1 \<le> m" "m \<le> 12"
  shows "replace_months (ds @ '' de '' @ fst (month_map ! (m - 1)) @ '' de '' @ ys) =
         ds @ '' de '' @ pad2 m @ '' de '' @ ys"
proof -
  have skip_ds: "replace_from 0 (ds @ b) old new = ds @ replace_from 0 b old new"
    if "old \<noteq> []" "\<not> is_digit (hd old)" for b old new
    using that ds by (intro replace_from_skip) auto
  have skip_ys: "replace_from 0 ys old new = ys"
    if "old \<noteq> []" "\<not> is_digit (hd old)" for old new
    using replace_from_skip [of old ys "[]" new] that ys by auto
  note evals = replace_months_def month_map_def replace_def skip_ds skip_ys is_digit_cases
    pad2_def digit_char_def
  from month_cases [OF m] show ?thesis
    by (elim disjE) (simp_all add: evals)
qed


lemma day_cases:
  "1 \<le> (d::nat) \<Longrightarrow> d \<le> 31 \<Longrightarrow>
     d = 1 \<or> d = 2 \<or> d = 3 \<or> d = 4 \<or> d = 5 \<or> d = 6 \<or> d = 7 \<or> d = 8 \<or> d = 9 \<or> d = 10
     \<or> d = 11 \<or> d = 12 \<or> d = 13 \<or> d = 14 \<or> d = 15 \<or> d = 16 \<or> d = 17 \<or> d = 18 \<or> d = 19
     \<or> d = 20 \<or> d = 21 \<or> d = 22 \<or> d = 23 \<or> d = 24 \<or> d = 25 \<or> d = 26 \<or> d = 27 \<or> d = 28
     \<or> d = 29 \<or> d = 30 \<or> d = 31"
  by arith

lemma re_Y_pad4: "re_Y (pad4 y) = [(pad4 y, [])]"
  using digit_char_is_digit
  by (simp add: re_Y_def re_char_def re_seq_def pad4_def)

lemma re_spaces_one: "\<not> is_space c \<Longrightarrow> re_spaces (CHR '' '' # c # r) = [('' '', c # r)]"
  by (simp add: re_spaces_def is_space_def)

lemma re_de_exact:
  assumes "\<not> is_space c"
  shows "re_de ('' de '' @ c # r) = [('' de '', c # r)]"
proof -
  have d: "\<not> is_space CHR ''d''" by (simp add: is_space_def)
  show ?thesis
    using assms by (simp add: re_de_def re_seq_def re_char_def re_spaces_one [OF d] re_spaces_one)
qed

lemma py_int_pad2: "n < 100 \<Longrightarrow> py_int (pad2 n) = n"
  using digit_not_space [OF digit_char_is_digit]
  by (simp add: py_int_def pad2_def digit_val_digit_char)

lemmas re_defs = re_char_def re_seq_def re_alt_def in_range_def is_digit_cases

lemma re_m_pad2:
  assumes "1 \<le> m" "m \<le> 12"
  shows "\<exists>t. re_m (pad2 m @ CHR '' '' # r) = (pad2 m, CHR '' '' # r) # t"
  using month_cases [OF assms]
  by (elim disjE) (simp_all add: re_m_def re_defs pad2_def digit_char_def)


lemma div1000_less: "(n::nat) < 10000 \<Longrightarrow> n div 1000 < 10"
  by (simp add: less_mult_imp_div_less)

lemma div100_eq: "(n::nat) div 100 = n div 10 div 10"
  by (simp add: div_mult2_eq [symmetric])

lemma div1000_eq: "(n::nat) div 1000 = n div 10 div 10 div 10"
  by (simp add: div_mult2_eq [symmetric])

lemma decimal4:
  assumes "(n::nat) < 10000"
  shows "10 * (10 * (10 * (n div 1000 mod 10) + n div 100 mod 10) + n div 10 mod 10) + n mod 10 = n"
proof -
  have c: "n div 1000 mod 10 = n div 10 div 10 div 10"
    using div1000_less [OF assms] by (simp add: div1000_eq)
  have "10 * (n div 10 div 10 div 10) + n div 10 div 10 mod 10 = n div 10 div 10"
    by (rule mult_div_mod_eq)
  moreover have "10 * (n div 10 div 10) + n div 10 mod 10 = n div 10"
    by (rule mult_div_mod_eq)
  moreover have "10 * (n div 10) + n mod 10 = n"
    by (rule mult_div_mod_eq)
  ultimately show ?thesis
    unfolding c div100_eq by (simp only:)
qed

lemma py_int_pad4: "n < 10000 \<Longrightarrow> py_int (pad4 n) = n"
  using digit_not_space [OF digit_char_is_digit] decimal4 [of n]
  by (simp add: py_int_def pad4_def digit_val_digit_char)

lemma py_int_day_text: "n < 100 \<Longrightarrow> py_int (day_text n) = n"
  using digit_not_space [OF digit_char_is_digit] py_int_pad2 [of n]
  by (simp add: day_text_def) (simp add: py_int_def digit_val_digit_char)

lemma re_d_pad2:
  assumes "1 \<le> d" "d \<le> 31"
  shows "\<exists>t. re_d (pad2 d @ CHR '' '' # r) = (pad2 d, CHR '' '' # r) # t"
  using day_cases [OF assms]
  by (elim disjE) (simp_all add: re_d_def re_defs pad2_def digit_char_def)

lemma re_d_day_text:
  assumes "1 \<le> d" "d \<le> 31"
  shows "\<exists>t. re_d (day_text d @ CHR '' '' # r) = (day_text d, CHR '' '' # r) # t"
  using day_cases [OF assms]
  by (elim disjE) (simp_all add: re_d_def re_defs pad2_def digit_char_def day_text_def)

lemma days_in_month_le: "days_in_month y m \<le> 31"
  by (simp add: days_in_month_def)

lemma date_matches_date:
  assumes d: "1 \<le> d" "d \<le> 31" and m: "1 \<le> m" "m \<le> 12"
    and ds: "ds = pad2 d \<or> ds = day_text d"
  shows "\<exists>rest. date_matches (ds @ '' de '' @ pad2 m @ '' de '' @ pad4 y) =
           (ds, pad2 m, pad4 y, []) # rest"
proof -
  define r4 where "r4 = pad4 y"
  define r3 where "r3 = '' de '' @ r4"
  define r2 where "r2 = pad2 m @ r3"
  define r1 where "r1 = '' de '' @ r2"
  have nsp: "\<not> is_space (digit_char k)" for k
    by (rule digit_not_space [OF digit_char_is_digit])
  have r1: "r1 = CHR '' '' # ''de '' @ r2" by (simp add: r1_def)
  have r3: "r3 = CHR '' '' # ''de '' @ r4" by (simp add: r3_def)
  obtain t where A: "re_d (ds @ r1) = (ds, r1) # t"
    using ds re_d_pad2 [OF d, of "''de '' @ r2"] re_d_day_text [OF d, of "''de '' @ r2"]
    unfolding r1 by blast
  have B: "re_de r1 = [('' de '', r2)]"
    unfolding r1_def r2_def pad2_def using re_de_exact [OF nsp] by simp
  obtain t2 where C: "re_m r2 = (pad2 m, r3) # t2"
    using re_m_pad2 [OF m, of "''de '' @ r4"] unfolding r2_def r3 by blast
  have D: "re_de r3 = [('' de '', r4)]"
    unfolding r3_def r4_def pad4_def using re_de_exact [OF nsp] by simp
  have E: "re_Y r4 = [(pad4 y, [])]"
    unfolding r4_def by (rule re_Y_pad4)
  have "date_matches (ds @ r1) =
          (ds, pad2 m, pad4 y, []) #
          (concat (map (\<lambda>(m, r3). concat (map (\<lambda>(x2, r4).
              map (\<lambda>(y, r5). (ds, m, y, r5)) (re_Y r4)) (re_de r3))) t2)
           @ concat (map (\<lambda>(d, r1).
       concat (map (\<lambda>(x1, r2).
         concat (map (\<lambda>(m, r3).
           concat (map (\<lambda>(x2, r4).
             map (\<lambda>(y, r5). (d, m, y, r5)) (re_Y r4))
           (re_de r3)))
         (re_m r2)))
       (re_de r1))) t))"
    by (simp add: date_matches_def A B C D E)
  then show ?thesis
    unfolding r1_def r2_def r3_def r4_def by blast
qed

lemma strptime_date:
  assumes d: "1 \<le> d" "d \<le> days_in_month y m" and m: "1 \<le> m" "m \<le> 12"
    and y: "1 \<le> y" "y \<le> 9999"
    and ds: "ds = pad2 d \<or> ds = day_text d"
  shows "strptime (ds @ '' de '' @ pad2 m @ '' de '' @ pad4 y) = Inr (y, m, d)"
proof -
  have d31: "d \<le> 31" using d(2) days_in_month_le [of y m] by simp
  obtain rest where dm: "date_matches (ds @ '' de '' @ pad2 m @ '' de '' @ pad4 y) =
           (ds, pad2 m, pad4 y, []) # rest"
    using date_matches_date [OF d(1) d31 m ds] by blast
  have "py_int ds = d"
    using ds py_int_pad2 [of d] py_int_day_text [of d] d31 by auto
  moreover have "py_int (pad2 m) = m" using m by (simp add: py_int_pad2)
  moreover have "py_int (pad4 y) = y" using y by (simp add: py_int_pad4)
  ultimately show ?thesis
    unfolding strptime_def dm using d m y by simp
qed

lemma strip_newlines_none:
  assumes "\<forall>c\<in>set s. c \<noteq> CHR 0x0D \<and> c \<noteq> CHR 0x0A"
  shows "strip_newlines s = s"
proof -
  have "replace s [CHR 0x0D] [] = s" using assms by (intro replace_none) auto
  moreover have "replace s [CHR 0x0A] [] = s" using assms by (intro replace_none) auto
  ultimately show ?thesis by (simp add: strip_newlines_def)
qed

lemma digits_pad2: "\<forall>c\<in>set (pad2 n). is_digit c"
  by (simp add: pad2_def digit_char_is_digit)

lemma digits_pad4: "\<forall>c\<in>set (pad4 n). is_digit c"
  by (simp add: pad4_def digit_char_is_digit)

lemma digits_day_text: "\<forall>c\<in>set (day_text n). is_digit c"
  by (simp add: day_text_def pad2_def digit_char_is_digit)

lemma month_name_plain:
  assumes "1 \<le> m" "m \<le> 12"
  shows "fst (month_map ! (m - 1)) \<noteq> [] \<and> (\<forall>c\<in>set (fst (month_map ! (m - 1))). \<not> is_space c)"
  using month_cases [OF assms]
  by (elim disjE) (simp_all add: month_map_def is_space_def)

lemma split_date_text:
  assumes dow: "dow \<noteq> []" "\<forall>c\<in>set dow. \<not> is_space c"
    and ds: "ds \<noteq> []" "\<forall>c\<in>set ds. \<not> is_space c"
    and mn: "mn \<noteq> []" "\<forall>c\<in>set mn. \<not> is_space c"
    and ys: "ys \<noteq> []" "\<forall>c\<in>set ys. \<not> is_space c"
  shows "join '' '' (drop 1 (split (dow @ '' '' @ ds @ '' de '' @ mn @ '' de '' @ ys))) =
         ds @ '' de '' @ mn @ '' de '' @ ys"
proof -
  have sp: "is_space CHR '' ''" by (simp add: is_space_def)
  have de: "''de'' \<noteq> []" "\<forall>c\<in>set ''de''. \<not> is_space c" by (simp_all add: is_space_def)
  have "split (dow @ CHR '' '' # ds @ CHR '' '' # ''de'' @ CHR '' '' # mn @ CHR '' '' # ''de'' @ CHR '' '' # ys)
        = [dow, ds, ''de'', mn, ''de'', ys]"
    unfolding split_def
    by (simp only: split_from_word_space [OF dow(2) dow(1) sp]
          split_from_word_space [OF ds(2) ds(1) sp] split_from_word_space [OF mn(2) mn(1) sp]
          split_from_word_space [OF de(2) de(1) sp] split_from_word_end [OF ys(2) ys(1)])
  then show ?thesis by simp
qed

lemma space_chars: "c = CHR 0x0D \<or> c = CHR 0x0A \<Longrightarrow> is_space c"
  by (auto simp: is_space_def)

lemma normalise_date_text:
  assumes dow: "dow \<noteq> []" "\<forall>c\<in>set dow. \<not> is_space c"
    and m: "1 \<le> m" "m \<le> 12" and y: "1 \<le> y" "y \<le> 9999"
    and d: "1 \<le> d" "d \<le> days_in_month y m"
    and ds: "ds = pad2 d \<or> ds = day_text d"
  shows "strptime (replace_months (join '' '' (drop 1 (split (strip_newlines
           (dow @ '' '' @ ds @ '' de '' @ fst (month_map ! (m - 1)) @ '' de '' @ pad4 y))))))
         = Inr (y, m, d)"
proof -
  let ?mn = "fst (month_map ! (m - 1))"
  let ?raw = "dow @ '' '' @ ds @ '' de '' @ ?mn @ '' de '' @ pad4 y"
  have dsd: "\<forall>c\<in>set ds. is_digit c"
    using ds digits_pad2 [of d] digits_day_text [of d] by auto
  have dsn: "ds \<noteq> []" using ds by (auto simp: pad2_def day_text_def split: if_splits)
  have ysn: "pad4 y \<noteq> []" by (simp add: pad4_def)
  have dss: "\<forall>c\<in>set ds. \<not> is_space c" using dsd digit_not_space by blast
  have yss: "\<forall>c\<in>set (pad4 y). \<not> is_space c" using digits_pad4 digit_not_space by blast
  note mn = month_name_plain [OF m]
  have nocr: "\<forall>c\<in>set w. c \<noteq> CHR 0x0D \<and> c \<noteq> CHR 0x0A" if "\<forall>c\<in>set w. \<not> is_space c" for w
    using that space_chars by blast
  have n1: "\<forall>c\<in>set dow. c \<noteq> CHR 0x0D \<and> c \<noteq> CHR 0x0A" by (rule nocr [OF dow(2)])
  have n2: "\<forall>c\<in>set ds. c \<noteq> CHR 0x0D \<and> c \<noteq> CHR 0x0A" by (rule nocr [OF dss])
  have n3: "\<forall>c\<in>set ?mn. c \<noteq> CHR 0x0D \<and> c \<noteq> CHR 0x0A" using mn by (intro nocr) blast
  have n4: "\<forall>c\<in>set (pad4 y). c \<noteq> CHR 0x0D \<and> c \<noteq> CHR 0x0A" by (rule nocr [OF yss])
  have "\<forall>c\<in>set ?raw. c \<noteq> CHR 0x0D \<and> c \<noteq> CHR 0x0A"
    by (simp add: ball_Un n1 n2 n3 n4)
  then have 1: "strip_newlines ?raw = ?raw" by (rule strip_newlines_none)
  have 2: "join '' '' (drop 1 (split ?raw)) = ds @ '' de '' @ ?mn @ '' de '' @ pad4 y"
    using split_date_text [OF dow dsn dss _ _ ysn yss] mn by blast
  have 3: "replace_months (ds @ '' de '' @ ?mn @ '' de '' @ pad4 y) =
           ds @ '' de '' @ pad2 m @ '' de '' @ pad4 y"
    by (rule replace_months_date [OF dsd digits_pad4 m])
  show ?thesis
    unfolding 1 2 3 by (rule strptime_date [OF d m y ds])
qed

lemma decimal_pad4: "1000 \<le> y \<Longrightarrow> y \<le> 9999 \<Longrightarrow> decimal y = pad4 y"
proof -
  assume y: "1000 \<le> y" "y \<le> 9999"
  have a: "\<not> y < 10" "\<not> y div 10 < 10" "\<not> y div 10 div 10 < 10" "y div 10 div 10 div 10 < 10"
    using y by simp_all
  have "decimal y = [digit_char (y div 10 div 10 div 10), digit_char (y div 10 div 10),
                     digit_char (y div 10), digit_char y]"
    by (simp add: decimal.simps [of y] decimal.simps [of "y div 10"]
          decimal.simps [of "y div 10 div 10"] decimal.simps [of "y div 10 div 10 div 10"] a)
  then show ?thesis by (simp add: pad4_def div100_eq div1000_eq)
qed

lemma decimal_999: "decimal 999 = ''999''"
  by (simp add: decimal.simps digit_char_def)

text \<open>
  What both \<open>get_date\<close> functions return for a \<open>time\<close> text of the form
  \<open><dow> <day> de <month-name> de <year>\<close>, where \<open>dow\<close> is a non-empty token without white
  space, the month name is the \<open>m\<close>-th of the twelve Spanish names, the year \<open>y\<close> is between
  1 and 9999 and written with four digits, and the day \<open>d\<close> is a day of that month, written
  with or without a leading zero: the year as \<open>strftime\<close> writes it, the month and the day
  in two digits.
\<close>

lemma get_date_of_form:
  assumes "find_tag ''time'' soup = Some time_tag"
    and "text_of time_tag =
           dow @ '' '' @ ds @ '' de '' @ fst (month_map ! (m - 1)) @ '' de '' @ pad4 y"
    and "dow \<noteq> []" and "\<forall>c\<in>set dow. \<not> is_space c"
    and "1 \<le> m" and "m \<le> 12" and "1 \<le> y" and "y \<le> 9999"
    and "1 \<le> d" and "d \<le> days_in_month y m"
    and "ds = pad2 d \<or> ds = day_text d"
  shows "collect_get_date soup = Inr (Some (decimal y @ ''-'' @ pad2 m @ ''-'' @ pad2 d))
       \<and> monitor_get_date soup = Inr (Some (decimal y @ ''-'' @ pad2 m @ ''-'' @ pad2 d))"
  using normalise_date_text [OF assms(3-11)] assms(1,2)
  by (simp add: collect_get_date_def monitor_get_date_def strftime_def)

text \<open>From the year 1000 on this is the ISO date \<open>YYYY-MM-DD\<close>.\<close>

lemma get_date_iso:
  assumes "find_tag ''time'' soup = Some time_tag"
    and "text_of time_tag =
           dow @ '' '' @ ds @ '' de '' @ fst (month_map ! (m - 1)) @ '' de '' @ pad4 y"
    and "dow \<noteq> []" and "\<forall>c\<in>set dow. \<not> is_space c"
    and "1 \<le> m" and "m \<le> 12" and "1000 \<le> y" and "y \<le> 9999"
    and "1 \<le> d" and "d \<le> days_in_month y m"
    and "ds = pad2 d \<or> ds = day_text d"
  shows "collect_get_date soup = Inr (Some (pad4 y @ ''-'' @ pad2 m @ ''-'' @ pad2 d))
       \<and> monitor_get_date soup = Inr (Some (pad4 y @ ''-'' @ pad2 m @ ''-'' @ pad2 d))"
proof -
  have "1 \<le> y" using assms(7) by simp
  from get_date_of_form [OF assms(1-6) this assms(8-11)] decimal_pad4 [OF assms(7,8)]
  show ?thesis by simp
qed

section \<open>Properties of link discovery\<close>

lemma discursos_urls_total:
  assumes "list_all has_href as"
  shows "discursos_urls (\<lambda>href. Inr (f href)) keyword as =
         Inr (map f (filter (\<lambda>href. contains (lower href) keyword) (anchor_hrefs as)))"
  using assms by (induction as) (auto simp: has_href_def anchor_hrefs_def)

lemma discursos_urls_resolved:
  assumes "list_all has_href as"
    and "\<forall>href\<in>set (filter (\<lambda>href. contains (lower href) keyword) (anchor_hrefs as)).
           resolve href = Inr (u href)"
  shows "discursos_urls resolve keyword as =
         Inr (map u (filter (\<lambda>href. contains (lower href) keyword) (anchor_hrefs as)))"
  using assms by (induction as) (auto simp: has_href_def anchor_hrefs_def)

lemma discursos_urls_raises:
  assumes "\<not> list_all has_href as"
  shows "isl (discursos_urls resolve keyword as)"
  using assms by (induction as) (auto simp: has_href_def split: sum.splits option.splits)

lemma discursos_urls_attribute_error:
  assumes "\<not> list_all has_href as"
  shows "discursos_urls (\<lambda>href. Inr (f href)) keyword as = Inl AttributeError"
  using assms by (induction as) (auto simp: has_href_def split: sum.splits option.splits)

lemma box_anchors_test_index_page:
  "box_anchors test_index_page = [Tag ''a'' [(''href'', ''milei-speech'')] [Text ''Link'']]"
  by (simp add: box_anchors_def test_index_page_def index_page_def article_selector_def
        split_def is_space_def)

lemma box_anchors_bare_anchor_page:
  "box_anchors bare_anchor_page =
     [Tag ''a'' [(''href'', ''milei-speech'')] [Text ''Link''], Tag ''a'' [(''name'', ''top'')] []]"
  by (simp add: box_anchors_def bare_anchor_page_def index_page_def article_selector_def
        split_def is_space_def)

lemma milei_qualifies: "contains (lower ''milei-speech'') ''milei''"
  by (simp add: lower_def lower_char_def)

lemma urlparse_href_example:
  "urlparse ''milei-speech'' ''http'' = Inr (''http'', [], ''milei-speech'', [], [], [])"
  by (simp add: urlparse_def urlsplit_def c0_or_space_def unsafe_byte_def uses_params_def)

lemma scheme_ok: "list_all (\<lambda>c. c \<in> set scheme_chars) ''http''"
  by (simp add: scheme_chars_def)
lemma lower_http: "lower ''http'' = ''http''"
  by (simp add: lower_def lower_char_def)
lemma urlsplit_base_example:
  "urlsplit ''http://example.com'' [] = Inr (''http'', ''example.com'', [], [], [])"
  unfolding urlsplit_def
  using scheme_ok
  by (simp add: c0_or_space_def unsafe_byte_def lower_http
        is_ascii_alpha_def in_range_def)

lemma py_urljoin_example:
  "py_urljoin ''http://example.com'' ''milei-speech'' = Inr ''http://example.com/milei-speech''"
  by code_simp

text \<open>
  When the index page is fetched and every anchor of its article boxes has an \<open>href\<close>,
  \<open>get_discursos_urls\<close> of \<open>collect_and_update_data.py\<close> returns, for the qualifying hrefs
  in document order, \<open>urljoin(base_url, href)\<close> (when \<open>urljoin\<close> raises for none of them), and
  \<open>get_discursos_urls\<close> of \<open>monitor_website.py\<close> returns \<open>base_url\<close> followed by the href.
\<close>

lemma get_discursos_urls_resolution:
  assumes "http_get e base_url = Some soup"
    and "list_all has_href (box_anchors soup)"
    and "\<forall>href\<in>set (qualifying_hrefs keyword soup). urljoin e base_url href = Inr (u href)"
  shows "collect_get_discursos_urls e base_url keyword = Inr (map u (qualifying_hrefs keyword soup))
       \<and> monitor_get_discursos_urls e base_url keyword =
           Inr (map (\<lambda>href. base_url @ href) (qualifying_hrefs keyword soup))"
  using assms discursos_urls_resolved [of "box_anchors soup" keyword "urljoin e base_url" u]
    discursos_urls_total [of "box_anchors soup" "\<lambda>href. base_url @ href" keyword]
  by (simp add: collect_get_discursos_urls_def monitor_get_discursos_urls_def qualifying_hrefs_def)

lemma box_anchors_root_relative_page:
  "box_anchors root_relative_page =
     [Tag ''a'' [(''href'', ''/informacion/discursos/50-milei'')] [Text ''Discurso'']]"
  by (simp add: box_anchors_def root_relative_page_def index_page_def article_selector_def
        split_def is_space_def)

lemma box_anchors_test_page_as_written: "box_anchors test_page_as_written = []"
  by (simp add: box_anchors_def test_page_as_written_def article_selector_def)

lemma root_relative_qualifies: "contains (lower ''/informacion/discursos/50-milei'') ''milei''"
  by (simp add: lower_def lower_char_def)

lemma py_urljoin_root_relative:
  "py_urljoin discursos_url ''/informacion/discursos/50-milei''
     = Inr ''https://www.casarosada.gob.ar/informacion/discursos/50-milei''"
  by code_simp

section \<open>Claims\<close>

text \<open>
  C7. The extracted content is the concatenation, with no separator, of the text of every
  \<open>p\<close> tag below the first \<open>article\<close> tag of the document (in document order) that has
  no \<open>strong\<close> tag below it. When the document has no \<open>article\<close> tag the content is the
  absent value, which is not the empty string. On the document of the test,
  \<open><article><p>Content</p><p><strong>Not this</strong></p></article>\<close>, the content is
  exactly \<open>Content\<close>.
\<close>

theorem get_article_content_spec:
  "get_article_content soup =
     (case filter (is_tag ''article'') (descendants soup) of
        [] \<Rightarrow> None
      | article # others \<Rightarrow>
          Some (concat (map text_of
            (filter (\<lambda>p. is_tag ''p'' p \<and> \<not> list_ex (is_tag ''strong'') (descendants p))
               (descendants article)))))
   \<and> (\<not> list_ex (is_tag ''article'') (descendants soup) \<longrightarrow>
        get_article_content soup = None \<and> get_article_content soup \<noteq> Some [])
   \<and> get_article_content test_article_doc = Some ''Content''"
proof (intro conjI impI)
  show "get_article_content soup =
     (case filter (is_tag ''article'') (descendants soup) of
        [] \<Rightarrow> None
      | article # others \<Rightarrow>
          Some (concat (map text_of
            (filter (\<lambda>p. is_tag ''p'' p \<and> \<not> list_ex (is_tag ''strong'') (descendants p))
               (descendants article)))))"
    unfolding get_article_content_def filter_strong_free
    by (simp add: find_tag_find_all find_all_descendants split: list.splits)
next
  assume "\<not> list_ex (is_tag ''article'') (descendants soup)"
  then have "find_tag ''article'' soup = None" by (simp add: find_tag_None_iff)
  then show "get_article_content soup = None" "get_article_content soup \<noteq> Some []"
    by (simp_all add: get_article_content_def)
next
  show "get_article_content test_article_doc = Some ''Content''"
    by (simp add: get_article_content_def test_article_doc_def)
qed

theorem get_article_content_spec_witness:
  "\<not> list_ex (is_tag ''article'') (descendants (Tag ''[document]'' [] [Tag ''p'' [] [Text ''x'']]))
   \<and> get_article_content (Tag ''[document]'' [] [Tag ''p'' [] [Text ''x'']]) = None
   \<and> get_article_content test_article_doc = Some ''Content''"
  using get_article_content_spec [of "Tag ''[document]'' [] [Tag ''p'' [] [Text ''x'']]"]
  by simp

text \<open>
  C6. The claim that \<open>get_date\<close> returns the ISO date \<open>YYYY-MM-DD\<close> for every \<open>time\<close> text
  of the form \<open><dow> <day> de <month-name> de <year>\<close> with a day and a year that parse holds
  from the year 1000 on (\<open>get_date_iso\<close>) and fails below: \<open>strptime\<close> reads the years
  0001 to 0999, and \<open>strftime\<close> writes them without the leading zeros. For
  \<open>lunes 13 de febrero de 0999\<close> both \<open>get_date\<close> functions return \<open>999-02-13\<close>, which
  is not of the form \<open>YYYY-MM-DD\<close> that the docstring of \<open>get_date\<close> promises; for
  \<open>lunes 13 de febrero de 2025\<close> they return \<open>2025-02-13\<close>.
\<close>

theorem get_date_short_year:
  "collect_get_date (time_doc ''lunes 13 de febrero de 0999'') = Inr (Some ''999-02-13'')
   \<and> monitor_get_date (time_doc ''lunes 13 de febrero de 0999'') = Inr (Some ''999-02-13'')
   \<and> collect_get_date (time_doc ''lunes 13 de febrero de 2025'') = Inr (Some ''2025-02-13'')
   \<and> monitor_get_date (time_doc ''lunes 13 de febrero de 2025'') = Inr (Some ''2025-02-13'')"
  using get_date_of_form [of "time_doc ''lunes 13 de febrero de 0999''"
      "Tag ''time'' [] [Text ''lunes 13 de febrero de 0999'']" "''lunes''" "''13''" 2 999 13]
    get_date_iso [of "time_doc ''lunes 13 de febrero de 2025''"
      "Tag ''time'' [] [Text ''lunes 13 de febrero de 2025'']" "''lunes''" "''13''" 2 2025 13]
    decimal_999
  by (simp add: time_doc_def month_map_def pad4_def pad2_def digit_char_def day_text_def
        days_in_month_def is_leap_def is_space_def)

text \<open>
  C1. The claim that \<open>get_date\<close> never raises fails in both scripts. In
  \<open>collect_and_update_data.py\<close> a document without a \<open>time\<close> tag makes \<open>get_date\<close> raise
  \<open>AttributeError\<close> (\<open>np.nan\<close> has no \<open>split\<close>); in \<open>monitor_website.py\<close> a \<open>time\<close> text
  that does not parse makes it raise \<open>ValueError\<close>. Each script handles the case the other
  one misses: a text that does not parse gives the absent value in
  \<open>collect_and_update_data.py\<close>, and a missing \<open>time\<close> tag gives it in
  \<open>monitor_website.py\<close>.
\<close>

theorem get_date_raises:
  "collect_get_date (Tag ''[document]'' [] []) = Inl AttributeError
   \<and> monitor_get_date (time_doc ''hoy'') = Inl ValueError
   \<and> collect_get_date (time_doc ''hoy'') = Inr None
   \<and> monitor_get_date (Tag ''[document]'' [] []) = Inr None"
  by (simp add: collect_get_date_def monitor_get_date_def time_doc_def strip_newlines_def
        replace_def split_def is_space_def replace_months_def month_map_def strptime_def
        date_matches_def re_d_def re_defs)

text \<open>
  C2. The claim that every qualifying href is resolved against the base URL by URL-join
  holds for \<open>get_discursos_urls\<close> of \<open>collect_and_update_data.py\<close>, which calls \<open>urljoin\<close>,
  and fails for \<open>get_discursos_urls\<close> of \<open>monitor_website.py\<close>, which writes the href
  after the base URL. For the href \<open>milei-speech\<close>, the keyword \<open>milei\<close> and the base
  \<open>http://example.com\<close> the first returns \<open>http://example.com/milei-speech\<close> and the second
  \<open>http://example.commilei-speech\<close>. For the base URL of the scripts and an href that is a
  path from the root, the second returns a URL in which the path of the base is doubled.
  On the page of the test \<open>test_get_discursos_urls\<close> as the test writes it, the selector
  matches nothing and the function returns the empty list.
\<close>

theorem monitor_get_discursos_urls_concatenates:
  "monitor_get_discursos_urls (py_env (\<lambda>url. Some test_index_page)) ''http://example.com'' ''milei''
     = Inr [''http://example.commilei-speech'']
   \<and> collect_get_discursos_urls (py_env (\<lambda>url. Some test_index_page)) ''http://example.com'' ''milei''
     = Inr [''http://example.com/milei-speech'']
   \<and> monitor_get_discursos_urls (py_env (\<lambda>url. Some root_relative_page)) discursos_url ''milei''
     = Inr [''https://www.casarosada.gob.ar/informacion/discursos//informacion/discursos/50-milei'']
   \<and> collect_get_discursos_urls (py_env (\<lambda>url. Some root_relative_page)) discursos_url ''milei''
     = Inr [''https://www.casarosada.gob.ar/informacion/discursos/50-milei'']
   \<and> monitor_get_discursos_urls (py_env (\<lambda>url. Some test_page_as_written)) ''http://example.com'' ''milei''
     = Inr []"
proof -
  have a: "monitor_get_discursos_urls (py_env (\<lambda>url. Some test_index_page)) ''http://example.com'' ''milei''
             = Inr [''http://example.commilei-speech'']"
    and b: "collect_get_discursos_urls (py_env (\<lambda>url. Some test_index_page)) ''http://example.com'' ''milei''
             = Inr [''http://example.com/milei-speech'']"
    using get_discursos_urls_resolution [of "py_env (\<lambda>url. Some test_index_page)"
        "''http://example.com''" test_index_page "''milei''" "\<lambda>href. ''http://example.com/milei-speech''"]
      milei_qualifies py_urljoin_example
    by (simp_all add: py_env_def qualifying_hrefs_def anchor_hrefs_def box_anchors_test_index_page
          has_href_def)
  have c: "monitor_get_discursos_urls (py_env (\<lambda>url. Some root_relative_page)) discursos_url ''milei''
             = Inr [discursos_url @ ''/informacion/discursos/50-milei'']"
    and d: "collect_get_discursos_urls (py_env (\<lambda>url. Some root_relative_page)) discursos_url ''milei''
             = Inr [''https://www.casarosada.gob.ar/informacion/discursos/50-milei'']"
    using get_discursos_urls_resolution [of "py_env (\<lambda>url. Some root_relative_page)"
        discursos_url root_relative_page "''milei''"
        "\<lambda>href. ''https://www.casarosada.gob.ar/informacion/discursos/50-milei''"]
      root_relative_qualifies py_urljoin_root_relative
    by (simp_all add: py_env_def qualifying_hrefs_def anchor_hrefs_def box_anchors_root_relative_page
          has_href_def)
  have e: "monitor_get_discursos_urls (py_env (\<lambda>url. Some test_page_as_written)) ''http://example.com'' ''milei''
             = Inr []"
    by (simp add: monitor_get_discursos_urls_def py_env_def box_anchors_test_page_as_written)
  from a b c d e show ?thesis by (simp add: discursos_url_def)
qed

text \<open>
  C10. Link discovery needs every anchor of the matched article boxes to have an
  \<open>href\<close>. When the index page is fetched and some such anchor has none, both
  \<open>get_discursos_urls\<close> functions raise (in \<open>monitor_website.py\<close> it is the
  \<open>AttributeError\<close> of \<open>None.lower()\<close>) instead of skipping the anchor; when every anchor
  has one, \<open>get_discursos_urls\<close> of \<open>monitor_website.py\<close> returns a list. The witness is an
  article box with the anchors \<open><a href='milei-speech'>\<close> and \<open><a name='top'>\<close>.
\<close>

theorem get_discursos_urls_needs_href:
  assumes "http_get e base_url = Some soup"
  shows "(\<not> list_all has_href (box_anchors soup) \<longrightarrow>
            isl (collect_get_discursos_urls e base_url keyword)
            \<and> monitor_get_discursos_urls e base_url keyword = Inl AttributeError)
       \<and> (list_all has_href (box_anchors soup) \<longrightarrow>
            \<not> isl (monitor_get_discursos_urls e base_url keyword))"
  using assms discursos_urls_raises [of "box_anchors soup" "urljoin e base_url" keyword]
    discursos_urls_attribute_error [of "box_anchors soup" "\<lambda>href. base_url @ href" keyword]
    discursos_urls_total [of "box_anchors soup" "\<lambda>href. base_url @ href" keyword]
  by (simp add: collect_get_discursos_urls_def monitor_get_discursos_urls_def)

theorem get_discursos_urls_needs_href_witness:
  "\<not> list_all has_href (box_anchors bare_anchor_page)
   \<and> collect_get_discursos_urls (py_env (\<lambda>url. Some bare_anchor_page)) ''http://example.com'' ''milei''
       = Inl AttributeError
   \<and> monitor_get_discursos_urls (py_env (\<lambda>url. Some bare_anchor_page)) ''http://example.com'' ''milei''
       = Inl AttributeError"
  using get_discursos_urls_needs_href [of "py_env (\<lambda>url. Some bare_anchor_page)"
      "''http://example.com''" bare_anchor_page "''milei''"]
    milei_qualifies py_urljoin_example
  by (simp add: py_env_def box_anchors_bare_anchor_page has_href_def
        collect_get_discursos_urls_def)

end
